theory Spec2Isabelle
  imports Complex_Main
begin

section \<open>JavaScript values\<close>

text \<open>
  The dashboard keeps whatever \<^verbatim>\<open>JSON.parse\<close> and the DOM hand it: the values are
  JSON values, plus \<^verbatim>\<open>undefined\<close>, which a read of a missing property yields.
  An object is an association list; the first binding of a key is the one a read sees.
  The repository's code never calculates with a number: it tests it for truthiness and
  passes it on, so a number is a real.
\<close>

datatype jsval =
    Undefined
  | Null
  | Bool bool
  | Num real
  | Str string
  | Arr "jsval list"
  | Obj "(string \<times> jsval) list"

text \<open>The truthiness test of \<^verbatim>\<open>if (v)\<close>, \<^verbatim>\<open>!v\<close>, \<^verbatim>\<open>v ? a : b\<close> and \<^verbatim>\<open>v || d\<close>.\<close>

fun truthy :: "jsval \<Rightarrow> bool" where
  "truthy Undefined = False"
| "truthy Null = False"
| "truthy (Bool b) = b"
| "truthy (Num x) = (x \<noteq> 0)"
| "truthy (Str s) = (s \<noteq> [])"
| "truthy (Arr xs) = True"
| "truthy (Obj kvs) = True"

text \<open>
  The read \<^verbatim>\<open>v.k\<close>: a TypeError (\<open>None\<close>) on \<^verbatim>\<open>null\<close> and \<^verbatim>\<open>undefined\<close>,
  the bound value on an object that has the key, \<^verbatim>\<open>undefined\<close> otherwise. The keys the
  code reads are none of the built-in properties of strings, numbers or arrays.
\<close>

fun get_prop :: "jsval \<Rightarrow> string \<Rightarrow> jsval option" where
  "get_prop Undefined k = None"
| "get_prop Null k = None"
| "get_prop (Obj kvs) k = (case map_of kvs k of Some v \<Rightarrow> Some v | None \<Rightarrow> Some Undefined)"
| "get_prop v k = Some Undefined"

text \<open>The optional read \<^verbatim>\<open>v?.k\<close>, which never throws.\<close>

fun opt_prop :: "jsval \<Rightarrow> string \<Rightarrow> jsval" where
  "opt_prop v k = (case get_prop v k of Some x \<Rightarrow> x | None \<Rightarrow> Undefined)"

text \<open>\<^verbatim>\<open>a || d\<close>.\<close>

fun or_else :: "jsval \<Rightarrow> jsval \<Rightarrow> jsval" where
  "or_else a d = (if truthy a then a else d)"

text \<open>\<^verbatim>\<open>xs.slice(-n)\<close>: the last \<open>n\<close> elements, all of them when there are fewer.\<close>

definition slice_last :: "nat \<Rightarrow> 'a list \<Rightarrow> 'a list" where
  "slice_last n xs = drop (length xs - n) xs"


section \<open>The dashboard: state, environment and effects\<close>

text \<open>One sample of the price history, as \<^verbatim>\<open>handleWebSocketMessage\<close> builds it.\<close>

record sample =
  timestamp :: jsval
  price :: jsval
  volume :: jsval

text \<open>
  A socket the component has created: the \<^verbatim>\<open>symbol\<close> its handlers have captured,
  its URL and its ready state. A timer set by \<^verbatim>\<open>setTimeout\<close>: the symbol its
  callback reconnects to, its delay, the time it is due, and whether it is still pending
  (neither fired nor cleared).
\<close>

datatype readyState = CONNECTING | OPEN | CLOSING | CLOSED

record websocket =
  ws_symbol :: string
  ws_url :: string
  ws_state :: readyState

record timer =
  t_symbol :: string
  t_delay :: nat
  t_due :: nat
  t_pending :: bool

text \<open>What the component does to the world outside its state, in the order it does it.\<close>

text \<open>A file the user has picked, and a field of a multipart form.\<close>

record upload =
  file_name :: string
  file_bytes :: string

datatype form_value = FormText string | FormFile upload

datatype effect =
    ConsoleLog string
  | ConsoleError string
  | ToastSuccess string
  | ToastError string
  | HttpGet string
  | HttpPost string jsval
  | HttpPostForm string "(string \<times> form_value) list"
  | NewWebSocket string
  | WsCloseCall nat
  | SetTimeout nat nat
  | ClearTimeout nat

text \<open>
  The state of \<^verbatim>\<open>App\<close> (the \<^verbatim>\<open>useState\<close> cells and the two refs), followed by the
  environment it acts on: the sockets and timers created so far (a socket is named by its
  position, a timer by its position plus one, since a timer handle is a positive
  integer), the clock in milliseconds, where the component is in its life, and the trace
  of effects.
\<close>

datatype phase = Fresh | Mounted | Unmounted

record app =
  selectedSymbol :: string
  symbols :: jsval
  currentData :: jsval
  indicators :: jsval
  aiAnalysis :: jsval
  isConnected :: bool
  priceHistory :: "sample list"
  alerts :: "jsval list"
  alertPrice :: jsval
  alertType :: jsval
  recentAnalyses :: jsval
  wsRef :: "nat option"
  reconnectTimeoutRef :: "nat option"
  sockets :: "websocket list"
  timers :: "timer list"
  clock :: nat
  phase :: phase
  trace :: "effect list"

text \<open>\<^verbatim>\<open>BACKEND_URL\<close> comes from the build environment; the two bases are derived from it.\<close>

definition API :: "string \<Rightarrow> string" where
  "API backend_url = backend_url @ ''/api''"

text \<open>\<^verbatim>\<open>BACKEND_URL.replace(/^https?:\/\//, 'wss://')\<close>\<close>

definition WS_URL :: "string \<Rightarrow> string" where
  "WS_URL backend_url =
     (if take 8 backend_url = ''https://'' then ''wss://'' @ drop 8 backend_url
      else if take 7 backend_url = ''http://'' then ''wss://'' @ drop 7 backend_url
      else backend_url)"

definition emit :: "effect \<Rightarrow> app \<Rightarrow> app" where
  "emit e st = st\<lparr>trace := trace st @ [e]\<rparr>"

definition initial :: app where
  "initial = \<lparr>selectedSymbol = ''AAPL'', symbols = Arr [], currentData = Null,
     indicators = Obj [], aiAnalysis = Null, isConnected = False, priceHistory = [],
     alerts = [], alertPrice = Str [], alertType = Str ''above'', recentAnalyses = Arr [],
     wsRef = None, reconnectTimeoutRef = None, sockets = [], timers = [], clock = 0,
     phase = Fresh, trace = []\<rparr>"

section \<open>Stream messages\<close>

text \<open>
  \<^verbatim>\<open>fetchRecentAnalyses\<close> up to its \<^verbatim>\<open>await\<close>: the request for the analyses of
  \<^verbatim>\<open>selectedSymbol\<close> is issued. The function is a closure of one render, and \<open>rsym\<close> is the
  selected symbol of that render.
\<close>

definition fetchRecentAnalyses :: "string \<Rightarrow> string \<Rightarrow> app \<Rightarrow> app" where
  "fetchRecentAnalyses b rsym st = emit (HttpGet (API b @ ''/analysis/'' @ rsym)) st"

text \<open>
  \<^verbatim>\<open>handleWebSocketMessage(data)\<close>. The switch compares \<^verbatim>\<open>data.type\<close> strictly with three
  strings. The result is \<open>None\<close> when reading \<^verbatim>\<open>data.type\<close> throws.
\<close>

definition handleWebSocketMessage :: "string \<Rightarrow> string \<Rightarrow> jsval \<Rightarrow> app \<Rightarrow> app option" where
  "handleWebSocketMessage b rsym data st =
     (case get_prop data ''type'' of
        None \<Rightarrow> None
      | Some ty \<Rightarrow>
          if ty = Str ''connection'' then
            Some (emit (ConsoleLog ''Connection confirmed:'') st)
          else if ty = Str ''market_data'' then
            Some (st\<lparr>currentData := data,
                      indicators := or_else (opt_prop data ''indicators'') (Obj []),
                      priceHistory := slice_last 50 (priceHistory st @
                        [\<lparr>timestamp = opt_prop data ''timestamp'',
                          price = opt_prop data ''price'',
                          volume = opt_prop data ''volume''\<rparr>])\<rparr>)
          else if ty = Str ''ai_analysis'' then
            Some (fetchRecentAnalyses b rsym
                   (emit (ToastSuccess ([CHR 0xF0, CHR 0x9F, CHR 0xA7, CHR 0xA0]
                                         @ '' New AI Analysis Available!''))
                     (st\<lparr>aiAnalysis := data\<rparr>)))
          else Some (emit (ConsoleLog ''Unknown message type:'') st))"

text \<open>
  \<^verbatim>\<open>ws.onmessage\<close>: the payload is parsed (\<open>None\<close> stands for a payload that
  \<^verbatim>\<open>JSON.parse\<close> rejects) and handled; whatever is thrown is caught and logged.
\<close>

definition onmessage :: "string \<Rightarrow> string \<Rightarrow> jsval option \<Rightarrow> app \<Rightarrow> app" where
  "onmessage b rsym payload st =
     (case payload of
        None \<Rightarrow> emit (ConsoleError ''Error parsing WebSocket message:'') st
      | Some data \<Rightarrow>
          (case handleWebSocketMessage b rsym data st of
             None \<Rightarrow> emit (ConsoleError ''Error parsing WebSocket message:'') st
           | Some st' \<Rightarrow> st'))"

text \<open>A run of inbound payloads, one \<^verbatim>\<open>onmessage\<close> after the other.\<close>

fun receive :: "string \<Rightarrow> string \<Rightarrow> jsval option list \<Rightarrow> app \<Rightarrow> app" where
  "receive b rsym [] st = st"
| "receive b rsym (p # ps) st = receive b rsym ps (onmessage b rsym p st)"

text \<open>The payloads that are market data, and the sample each one contributes.\<close>

fun is_market_data :: "jsval option \<Rightarrow> bool" where
  "is_market_data None = False"
| "is_market_data (Some data) = (get_prop data ''type'' = Some (Str ''market_data''))"

fun sample_of :: "jsval option \<Rightarrow> sample" where
  "sample_of None = \<lparr>timestamp = Undefined, price = Undefined, volume = Undefined\<rparr>"
| "sample_of (Some data) = \<lparr>timestamp = opt_prop data ''timestamp'',
     price = opt_prop data ''price'', volume = opt_prop data ''volume''\<rparr>"

section \<open>REST calls\<close>

text \<open>
  An \<^verbatim>\<open>async\<close> function is two definitions: the function up to its \<^verbatim>\<open>await\<close>, which
  issues the request, and its continuation, which runs when the request has settled, on
  the state of that moment. A request is answered with \<^verbatim>\<open>response.data\<close> or rejected.
\<close>

datatype 'a outcome = Rejected | Resolved 'a

definition fetchSymbols :: "string \<Rightarrow> app \<Rightarrow> app" where
  "fetchSymbols b st = emit (HttpGet (API b @ ''/symbols'')) st"

definition fetchSymbols_settled :: "jsval outcome \<Rightarrow> app \<Rightarrow> app" where
  "fetchSymbols_settled r st =
     (case r of
        Resolved data \<Rightarrow>
          (case get_prop data ''symbols'' of
             Some v \<Rightarrow> st\<lparr>symbols := v\<rparr>
           | None \<Rightarrow> emit (ToastError ''Failed to fetch symbols'')
                      (emit (ConsoleError ''Error fetching symbols:'') st))
      | Rejected \<Rightarrow> emit (ToastError ''Failed to fetch symbols'')
                      (emit (ConsoleError ''Error fetching symbols:'') st))"

definition fetchAlerts :: "string \<Rightarrow> app \<Rightarrow> app" where
  "fetchAlerts b st = emit (HttpGet (API b @ ''/alerts'')) st"


definition fetchRecentAnalyses_settled :: "jsval outcome \<Rightarrow> app \<Rightarrow> app" where
  "fetchRecentAnalyses_settled r st =
     (case r of
        Resolved data \<Rightarrow>
          (case get_prop data ''analyses'' of
             Some v \<Rightarrow> st\<lparr>recentAnalyses := or_else v (Arr [])\<rparr>
           | None \<Rightarrow> emit (ConsoleError ''Error fetching analyses:'') st)
      | Rejected \<Rightarrow> emit (ConsoleError ''Error fetching analyses:'') st)"

section \<open>Creating a price alert\<close>

text \<open>
  The record \<^verbatim>\<open>createPriceAlert\<close> builds. \<open>now\<close> is the string
  \<^verbatim>\<open>Date.now().toString()\<close> and \<open>parseFloat\<close> the built-in of that name. Reading
  \<^verbatim>\<open>currentData.price\<close> throws when there is no quote.
\<close>

definition alertData :: "string \<Rightarrow> (jsval \<Rightarrow> jsval) \<Rightarrow> app \<Rightarrow> jsval option" where
  "alertData now parseFloat st =
     (case get_prop (currentData st) ''price'' of
        None \<Rightarrow> None
      | Some p \<Rightarrow> Some (Obj [
          (''id'', Str now),
          (''symbol'', Str (selectedSymbol st)),
          (''condition'', alertType st),
          (''target_price'', parseFloat (alertPrice st)),
          (''current_price'', p),
          (''triggered'', Bool False)]))"

text \<open>
  \<^verbatim>\<open>createPriceAlert\<close> up to \<^verbatim>\<open>await axios.post\<close>: the guard, then the request. An
  exception inside \<^verbatim>\<open>try\<close> goes to the \<^verbatim>\<open>catch\<close> block.
\<close>

definition createPriceAlert :: "string \<Rightarrow> string \<Rightarrow> (jsval \<Rightarrow> jsval) \<Rightarrow> app \<Rightarrow> app" where
  "createPriceAlert b now parseFloat st =
     (if \<not> truthy (alertPrice st) \<or> \<not> truthy (currentData st) then
        emit (ToastError ''Please enter a valid price'') st
      else
        (case alertData now parseFloat st of
           None \<Rightarrow> emit (ToastError ''Failed to create alert'')
                      (emit (ConsoleError ''Error creating alert:'') st)
         | Some d \<Rightarrow> emit (HttpPost (API b @ ''/alerts'') d) st))"

text \<open>The rest of \<^verbatim>\<open>createPriceAlert\<close>, once the POST has settled (\<open>ok\<close>: it resolved).\<close>

definition createPriceAlert_settled :: "string \<Rightarrow> bool \<Rightarrow> app \<Rightarrow> app" where
  "createPriceAlert_settled b ok st =
     (if ok then
        fetchAlerts b
          ((emit (ToastSuccess ''Price alert created successfully!'') st)\<lparr>alertPrice := Str []\<rparr>)
      else
        emit (ToastError ''Failed to create alert'')
          (emit (ConsoleError ''Error creating alert:'') st))"

text \<open>The requests a trace holds.\<close>

fun is_request :: "effect \<Rightarrow> bool" where
  "is_request (HttpGet u) = True"
| "is_request (HttpPost u d) = True"
| "is_request (HttpPostForm u fs) = True"
| "is_request e = False"

section \<open>What the dashboard shows\<close>

text \<open>
  A piece of text on the page: a literal of the source, or the output of one of the two
  formatters, which are kept symbolic. \<open>FormatPrice v\<close> is
  \<^verbatim>\<open>new Intl.NumberFormat('en-US', ...).format(v)\<close> and \<open>ToFixed2 v\<close> is
  \<^verbatim>\<open>parseFloat(v).toFixed(2)\<close>.
\<close>

datatype cell = Literal string | FormatPrice jsval | ToFixed2 jsval

definition formatPrice :: "jsval \<Rightarrow> cell" where
  "formatPrice p = FormatPrice p"

definition formatNumber :: "jsval \<Rightarrow> cell" where
  "formatNumber num = (if num = Null \<or> num = Undefined then Literal ''N/A'' else ToFixed2 num)"

text \<open>
  The texts of the indicator cards, as functions of the \<^verbatim>\<open>indicators\<close> cell. \<open>None\<close>: the
  render throws.
\<close>

definition rsi_text :: "jsval \<Rightarrow> cell option" where
  "rsi_text ind = map_option formatNumber (get_prop ind ''rsi'')"

text \<open>\<^verbatim>\<open>value={indicators.rsi || 0}\<close> of the progress bar under the RSI.\<close>

definition rsi_progress :: "jsval \<Rightarrow> jsval option" where
  "rsi_progress ind = map_option (\<lambda>v. or_else v (Num 0)) (get_prop ind ''rsi'')"

definition vwap_text :: "jsval \<Rightarrow> cell option" where
  "vwap_text ind =
     (case get_prop ind ''vwap'' of
        None \<Rightarrow> None
      | Some v \<Rightarrow> Some (if truthy v then formatPrice v else Literal ''$0.00''))"

definition sma_20_text :: "jsval \<Rightarrow> cell option" where
  "sma_20_text ind =
     (case get_prop ind ''sma_20'' of
        None \<Rightarrow> None
      | Some v \<Rightarrow> Some (if truthy v then formatPrice v else Literal ''N/A''))"

definition ema_20_text :: "jsval \<Rightarrow> cell option" where
  "ema_20_text ind =
     (case get_prop ind ''ema_20'' of
        None \<Rightarrow> None
      | Some v \<Rightarrow> Some (if truthy v then formatPrice v else Literal ''N/A''))"

text \<open>
  \<^verbatim>\<open>indicators.bollinger_bands?.upper ? formatPrice(indicators.bollinger_bands.upper) : 'N/A'\<close>,
  and the same for \<^verbatim>\<open>lower\<close>.
\<close>

definition bb_text :: "string \<Rightarrow> jsval \<Rightarrow> cell option" where
  "bb_text k ind =
     (case get_prop ind ''bollinger_bands'' of
        None \<Rightarrow> None
      | Some bb \<Rightarrow>
          if truthy (opt_prop bb k) then map_option formatPrice (get_prop bb k)
          else Some (Literal ''N/A''))"

definition bb_upper_text :: "jsval \<Rightarrow> cell option" where
  "bb_upper_text ind = bb_text ''upper'' ind"

definition bb_lower_text :: "jsval \<Rightarrow> cell option" where
  "bb_lower_text ind = bb_text ''lower'' ind"






section \<open>The streaming connection\<close>

text \<open>
  The browser's side of a socket and of a timer. \<^verbatim>\<open>ws.close()\<close> starts the closing
  handshake of a socket that is connecting or open and does nothing otherwise; the close
  event comes later, as an event of its own. \<^verbatim>\<open>clearTimeout(id)\<close> cancels the timer with
  that handle if it is pending.
\<close>

definition closing :: "websocket \<Rightarrow> websocket" where
  "closing w = (if ws_state w = CONNECTING \<or> ws_state w = OPEN then w\<lparr>ws_state := CLOSING\<rparr> else w)"

definition ws_close :: "nat \<Rightarrow> app \<Rightarrow> app" where
  "ws_close i st =
     emit (WsCloseCall i)
       (if i < length (sockets st)
        then st\<lparr>sockets := (sockets st)[i := closing (sockets st ! i)]\<rparr> else st)"

definition clearTimeout :: "nat \<Rightarrow> app \<Rightarrow> app" where
  "clearTimeout t st =
     emit (ClearTimeout t)
       (if 0 < t \<and> t \<le> length (timers st)
        then st\<lparr>timers := (timers st)[t - 1 := (timers st ! (t - 1))\<lparr>t_pending := False\<rparr>]\<rparr>
        else st)"

text \<open>
  \<^verbatim>\<open>setTimeout(() => { ...; connectWebSocket(symbol); }, delay)\<close>: a new pending timer, due
  \<open>delay\<close> milliseconds from now; the handle is returned with the state.
\<close>

definition setTimeout :: "string \<Rightarrow> nat \<Rightarrow> app \<Rightarrow> nat \<times> app" where
  "setTimeout symbol delay st =
     (Suc (length (timers st)),
      emit (SetTimeout (Suc (length (timers st))) delay)
        (st\<lparr>timers := timers st @
           [\<lparr>t_symbol = symbol, t_delay = delay, t_due = clock st + delay, t_pending = True\<rparr>]\<rparr>))"

text \<open>\<^verbatim>\<open>`${WS_URL}/api/ws/market/${symbol}`\<close>\<close>

definition wsUrl :: "string \<Rightarrow> string \<Rightarrow> string" where
  "wsUrl b symbol = WS_URL b @ ''/api/ws/market/'' @ symbol"

text \<open>
  \<^verbatim>\<open>connectWebSocket(symbol)\<close>. \<open>throws\<close> tells for which URLs the constructor
  \<^verbatim>\<open>new WebSocket\<close> throws.
\<close>

definition connectWebSocket :: "(string \<Rightarrow> bool) \<Rightarrow> string \<Rightarrow> string \<Rightarrow> app \<Rightarrow> app" where
  "connectWebSocket throws b symbol st =
     (let st1 = (case wsRef st of Some i \<Rightarrow> ws_close i st | None \<Rightarrow> st);
          st2 = emit (ConsoleLog (''Connecting to WebSocket: '' @ wsUrl b symbol)) st1
      in if throws (wsUrl b symbol) then
           (emit (ConsoleError ''Error creating WebSocket:'') st2)\<lparr>isConnected := False\<rparr>
         else
           (emit (NewWebSocket (wsUrl b symbol)) st2)
             \<lparr>sockets := sockets st2 @
                  [\<lparr>ws_symbol = symbol, ws_url = wsUrl b symbol, ws_state = CONNECTING\<rparr>],
               wsRef := Some (length (sockets st2))\<rparr>)"

text \<open>The handlers \<^verbatim>\<open>connectWebSocket(symbol)\<close> installs on the socket it creates.\<close>

definition onopen :: "string \<Rightarrow> app \<Rightarrow> app" where
  "onopen symbol st =
     emit (ToastSuccess (''Connected to '' @ symbol @ '' live data''))
       ((emit (ConsoleLog (''WebSocket connected for '' @ symbol)) st)\<lparr>isConnected := True\<rparr>)"

definition onclose :: "string \<Rightarrow> app \<Rightarrow> app" where
  "onclose symbol st =
     (let st1 = (emit (ConsoleLog (''WebSocket closed for '' @ symbol)) st)\<lparr>isConnected := False\<rparr>;
          (t, st2) = setTimeout symbol 3000 st1
      in st2\<lparr>reconnectTimeoutRef := Some t\<rparr>)"

definition onerror :: "app \<Rightarrow> app" where
  "onerror st =
     emit (ToastError ''Connection error occurred'')
       ((emit (ConsoleError ''WebSocket error:'') st)\<lparr>isConnected := False\<rparr>)"

text \<open>The callback of the reconnect timer.\<close>

definition reconnect :: "(string \<Rightarrow> bool) \<Rightarrow> string \<Rightarrow> string \<Rightarrow> app \<Rightarrow> app" where
  "reconnect throws b symbol st =
     connectWebSocket throws b symbol (emit (ConsoleLog ''Attempting to reconnect...'') st)"

text \<open>
  The effect on \<^verbatim>\<open>[selectedSymbol]\<close> and the cleanup it returns. A timer handle is a
  positive integer, so \<^verbatim>\<open>if (reconnectTimeoutRef.current)\<close> fails on \<^verbatim>\<open>null\<close> and would
  fail on 0.
\<close>

definition symbol_effect :: "(string \<Rightarrow> bool) \<Rightarrow> string \<Rightarrow> app \<Rightarrow> app" where
  "symbol_effect throws b st =
     (if selectedSymbol st \<noteq> [] then connectWebSocket throws b (selectedSymbol st) st else st)"

definition symbol_cleanup :: "app \<Rightarrow> app" where
  "symbol_cleanup st =
     (let st1 = (case wsRef st of Some i \<Rightarrow> ws_close i st | None \<Rightarrow> st)
      in case reconnectTimeoutRef st1 of
           Some t \<Rightarrow> if t \<noteq> 0 then clearTimeout t st1 else st1
         | None \<Rightarrow> st1)"

text \<open>The effect on \<^verbatim>\<open>[]\<close>, run once when the component mounts.\<close>

definition mount_effect :: "string \<Rightarrow> app \<Rightarrow> app" where
  "mount_effect b st =
     fetchRecentAnalyses b (selectedSymbol st) (fetchAlerts b (fetchSymbols b st))"

text \<open>
  What can happen to a dashboard: React mounts it, the user selects a symbol, React
  unmounts it, a socket reports that it is open, delivers a message, reports an error or
  reports that it is closed, a timer fires, time passes.
\<close>

datatype event =
    Mount
  | SelectSymbol string
  | Unmount
  | WsOpen nat
  | WsMessage nat "jsval option"
  | WsError nat
  | WsClose nat
  | TimerFires nat
  | Elapse nat

text \<open>Time does not pass beyond the moment a pending timer is due: the timer fires first.\<close>

definition may_elapse :: "nat \<Rightarrow> app \<Rightarrow> bool" where
  "may_elapse d st =
     list_all (\<lambda>t. if t_pending t then clock st + d \<le> t_due t else True) (timers st)"

text \<open>
  \<^verbatim>\<open>connectWebSocket\<close> is memoised with \<^verbatim>\<open>useCallback(..., [])\<close>, so the handlers it installs
  are closures of the first render, whose selected symbol is the initial one.

  One event, \<open>None\<close> when it cannot happen in the state. The open event comes to a
  connecting socket, a message to an open one, the close event to any socket that is not
  closed yet; selecting the symbol that is selected already changes nothing, and any other
  selection runs the cleanup of the old effect and then the effect anew.
\<close>

definition step :: "(string \<Rightarrow> bool) \<Rightarrow> string \<Rightarrow> event \<Rightarrow> app \<Rightarrow> app option" where
  "step throws b ev st =
     (case ev of
        Mount \<Rightarrow>
          if phase st = Fresh
          then Some (symbol_effect throws b (mount_effect b (st\<lparr>phase := Mounted\<rparr>)))
          else None
      | SelectSymbol s \<Rightarrow>
          if phase st \<noteq> Mounted then None
          else if s = selectedSymbol st then Some st
          else Some (symbol_effect throws b (symbol_cleanup (st\<lparr>selectedSymbol := s\<rparr>)))
      | Unmount \<Rightarrow>
          if phase st = Mounted then Some (symbol_cleanup (st\<lparr>phase := Unmounted\<rparr>)) else None
      | WsOpen i \<Rightarrow>
          if i < length (sockets st) \<and> ws_state (sockets st ! i) = CONNECTING
          then Some (onopen (ws_symbol (sockets st ! i))
                 (st\<lparr>sockets := (sockets st)[i := (sockets st ! i)\<lparr>ws_state := OPEN\<rparr>]\<rparr>))
          else None
      | WsMessage i payload \<Rightarrow>
          if i < length (sockets st) \<and> ws_state (sockets st ! i) = OPEN
          then Some (onmessage b (selectedSymbol initial) payload st)
          else None
      | WsError i \<Rightarrow>
          if i < length (sockets st) \<and> ws_state (sockets st ! i) \<noteq> CLOSED
          then Some (onerror st)
          else None
      | WsClose i \<Rightarrow>
          if i < length (sockets st) \<and> ws_state (sockets st ! i) \<noteq> CLOSED
          then Some (onclose (ws_symbol (sockets st ! i))
                 (st\<lparr>sockets := (sockets st)[i := (sockets st ! i)\<lparr>ws_state := CLOSED\<rparr>]\<rparr>))
          else None
      | TimerFires t \<Rightarrow>
          if 0 < t \<and> t \<le> length (timers st) \<and> t_pending (timers st ! (t - 1))
             \<and> t_due (timers st ! (t - 1)) \<le> clock st
          then Some (reconnect throws b (t_symbol (timers st ! (t - 1)))
                 (st\<lparr>timers := (timers st)[t - 1 := (timers st ! (t - 1))\<lparr>t_pending := False\<rparr>]\<rparr>))
          else None
      | Elapse d \<Rightarrow>
          if may_elapse d st then Some (st\<lparr>clock := clock st + d\<rparr>) else None)"

fun run :: "(string \<Rightarrow> bool) \<Rightarrow> string \<Rightarrow> event list \<Rightarrow> app \<Rightarrow> app option" where
  "run throws b [] st = Some st"
| "run throws b (ev # evs) st =
     (case step throws b ev st of None \<Rightarrow> None | Some st' \<Rightarrow> run throws b evs st')"

text \<open>The payloads a run of events delivers, in order.\<close>

fun payloads :: "event list \<Rightarrow> jsval option list" where
  "payloads [] = []"
| "payloads (WsMessage i p # evs) = p # payloads evs"
| "payloads (ev # evs) = payloads evs"

text \<open>A browser whose \<^verbatim>\<open>WebSocket\<close> constructor accepts every URL.\<close>

definition never_throws :: "string \<Rightarrow> bool" where
  "never_throws u = False"

text \<open>A socket is live while it is connecting or open.\<close>

definition live :: "websocket \<Rightarrow> bool" where
  "live w = (ws_state w = CONNECTING \<or> ws_state w = OPEN)"

text \<open>The positions of the live sockets.\<close>

definition live_sockets :: "app \<Rightarrow> nat list" where
  "live_sockets st = filter (\<lambda>i. live (sockets st ! i)) [0..<length (sockets st)]"

text \<open>The sockets after \<^verbatim>\<open>close()\<close> has been called on the one a ref holds, if it holds one.\<close>

definition close_at :: "nat option \<Rightarrow> websocket list \<Rightarrow> websocket list" where
  "close_at r ws = (case r of None \<Rightarrow> ws | Some i \<Rightarrow> ws[i := closing (ws ! i)])"

text \<open>
  Two facts about the timers that every event keeps: a pending timer is not overdue, and
  a timer, once set, keeps its symbol, delay and due time and is never pending again once
  it has fired or has been cleared.
\<close>

definition timers_ok :: "app \<Rightarrow> bool" where
  "timers_ok st = list_all (\<lambda>t. if t_pending t then clock st \<le> t_due t else True) (timers st)"

definition same_timer :: "timer \<Rightarrow> timer \<Rightarrow> bool" where
  "same_timer t t' =
     (t_symbol t' = t_symbol t \<and> t_delay t' = t_delay t \<and> t_due t' = t_due t \<and>
      (if t_pending t' then t_pending t else True))"

definition timers_grow :: "app \<Rightarrow> app \<Rightarrow> bool" where
  "timers_grow st st' =
     (length (timers st) \<le> length (timers st') \<and>
      list_all2 same_timer (timers st) (take (length (timers st)) (timers st')))"

text \<open>The socket the ref holds is the only one that can be live.\<close>

definition sole_live :: "app \<Rightarrow> bool" where
  "sole_live st =
     list_all (\<lambda>i. if live (sockets st ! i) then wsRef st = Some i else True)
       [0..<length (sockets st)]"

section \<open>The meeting summariser\<close>

text \<open>
  The second application, with its own state. \<open>trim\<close> is \<^verbatim>\<open>String.prototype.trim\<close>.
\<close>

record summarizer =
  meetingTitle :: string
  meetingContent :: string
  selectedFile :: "upload option"
  isLoading :: bool
  summary :: jsval
  meetings :: jsval
  activeTab :: string
  s_trace :: "effect list"

definition s_initial :: summarizer where
  "s_initial = \<lparr>meetingTitle = [], meetingContent = [], selectedFile = None,
     isLoading = False, summary = Null, meetings = Arr [], activeTab = ''summarize'',
     s_trace = []\<rparr>"

definition s_emit :: "effect \<Rightarrow> summarizer \<Rightarrow> summarizer" where
  "s_emit e st = st\<lparr>s_trace := s_trace st @ [e]\<rparr>"

text \<open>\<^verbatim>\<open>s.endsWith(suffix)\<close>\<close>

definition endsWith :: "string \<Rightarrow> string \<Rightarrow> bool" where
  "endsWith s suffix =
     (length suffix \<le> length s \<and> drop (length s - length suffix) s = suffix)"

definition fetchMeetings :: "string \<Rightarrow> summarizer \<Rightarrow> summarizer" where
  "fetchMeetings b st = s_emit (HttpGet (API b @ ''/meetings'')) st"

definition fetchMeetings_settled :: "jsval outcome \<Rightarrow> summarizer \<Rightarrow> summarizer" where
  "fetchMeetings_settled r st =
     (case r of
        Resolved data \<Rightarrow> st\<lparr>meetings := data\<rparr>
      | Rejected \<Rightarrow> s_emit (ConsoleError ''Error fetching meetings:'') st)"

text \<open>\<^verbatim>\<open>handleTextSummary\<close> up to its \<^verbatim>\<open>await\<close>, and its continuation with \<^verbatim>\<open>finally\<close>.\<close>

definition handleTextSummary :: "(string \<Rightarrow> string) \<Rightarrow> string \<Rightarrow> summarizer \<Rightarrow> summarizer" where
  "handleTextSummary trim b st =
     (if trim (meetingTitle st) = [] \<or> trim (meetingContent st) = [] then
        s_emit (ToastError ''Please provide both title and content'') st
      else
        s_emit (HttpPost (API b @ ''/summarize-text'')
                  (Obj [(''title'', Str (meetingTitle st)), (''content'', Str (meetingContent st))]))
          (st\<lparr>isLoading := True\<rparr>))"

definition handleTextSummary_settled :: "string \<Rightarrow> jsval outcome \<Rightarrow> summarizer \<Rightarrow> summarizer" where
  "handleTextSummary_settled b r st =
     (case r of
        Resolved data \<Rightarrow>
          fetchMeetings b
            ((s_emit (ToastSuccess ''Meeting summarized successfully!'')
                (st\<lparr>summary := data, activeTab := ''results''\<rparr>))
               \<lparr>meetingTitle := [], meetingContent := []\<rparr>)
      | Rejected \<Rightarrow>
          s_emit (ToastError ''Failed to summarize meeting. Please try again.'')
            (s_emit (ConsoleError ''Error summarizing meeting:'') st))
     \<lparr>isLoading := False\<rparr>"

text \<open>
  \<^verbatim>\<open>handleFileSummary\<close> up to its \<^verbatim>\<open>await\<close>: the form is built from the title and the
  selected file of the moment and posted. Then its continuation with \<^verbatim>\<open>finally\<close>.
\<close>

definition handleFileSummary :: "(string \<Rightarrow> string) \<Rightarrow> string \<Rightarrow> summarizer \<Rightarrow> summarizer" where
  "handleFileSummary trim b st =
     (case selectedFile st of
        None \<Rightarrow> s_emit (ToastError ''Please provide both title and file'') st
      | Some f \<Rightarrow>
          if trim (meetingTitle st) = [] then
            s_emit (ToastError ''Please provide both title and file'') st
          else
            s_emit (HttpPostForm (API b @ ''/summarize-file'')
                      [(''title'', FormText (meetingTitle st)), (''file'', FormFile f)])
              (st\<lparr>isLoading := True\<rparr>))"

definition handleFileSummary_settled :: "string \<Rightarrow> jsval outcome \<Rightarrow> summarizer \<Rightarrow> summarizer" where
  "handleFileSummary_settled b r st =
     (case r of
        Resolved data \<Rightarrow>
          fetchMeetings b
            ((s_emit (ToastSuccess ''File processed and summarized successfully!'')
                (st\<lparr>summary := data, activeTab := ''results''\<rparr>))
               \<lparr>meetingTitle := [], selectedFile := None\<rparr>)
      | Rejected \<Rightarrow>
          s_emit (ToastError ''Failed to process file. Please try again.'')
            (s_emit (ConsoleError ''Error processing file:'') st))
     \<lparr>isLoading := False\<rparr>"

text \<open>\<^verbatim>\<open>handleFileChange(e)\<close>, with \<^verbatim>\<open>e.target.files[0]\<close> as its argument.\<close>

definition handleFileChange :: "upload option \<Rightarrow> summarizer \<Rightarrow> summarizer" where
  "handleFileChange file st =
     (case file of
        None \<Rightarrow> st
      | Some f \<Rightarrow>
          if \<not> endsWith (file_name f) ''.txt'' \<and> \<not> endsWith (file_name f) ''.docx'' then
            s_emit (ToastError ''Please select a .txt or .docx file'') st
          else st\<lparr>selectedFile := Some f\<rparr>)"

text \<open>
  What can happen to the summariser: it mounts, the user types a title or a content, picks
  a file, presses one of the two buttons, changes the tab or opens a meeting of the list,
  and a request settles.
\<close>

datatype s_event =
    SummarizerMount
  | TitleInput string
  | ContentInput string
  | FileInput "upload option"
  | ClickTextSummary
  | TextSummarySettled "jsval outcome"
  | ClickFileSummary
  | FileSummarySettled "jsval outcome"
  | MeetingsSettled "jsval outcome"
  | TabChange string
  | OpenMeeting jsval

fun s_step :: "(string \<Rightarrow> string) \<Rightarrow> string \<Rightarrow> s_event \<Rightarrow> summarizer \<Rightarrow> summarizer" where
  "s_step trim b SummarizerMount st = fetchMeetings b st"
| "s_step trim b (TitleInput v) st = st\<lparr>meetingTitle := v\<rparr>"
| "s_step trim b (ContentInput v) st = st\<lparr>meetingContent := v\<rparr>"
| "s_step trim b (FileInput file) st = handleFileChange file st"
| "s_step trim b ClickTextSummary st = handleTextSummary trim b st"
| "s_step trim b (TextSummarySettled r) st = handleTextSummary_settled b r st"
| "s_step trim b ClickFileSummary st = handleFileSummary trim b st"
| "s_step trim b (FileSummarySettled r) st = handleFileSummary_settled b r st"
| "s_step trim b (MeetingsSettled r) st = fetchMeetings_settled r st"
| "s_step trim b (TabChange v) st = st\<lparr>activeTab := v\<rparr>"
| "s_step trim b (OpenMeeting meeting) st = st\<lparr>summary := meeting, activeTab := ''results''\<rparr>"

fun s_run :: "(string \<Rightarrow> string) \<Rightarrow> string \<Rightarrow> s_event list \<Rightarrow> summarizer \<Rightarrow> summarizer" where
  "s_run trim b [] st = st"
| "s_run trim b (ev # evs) st = s_run trim b evs (s_step trim b ev st)"

text \<open>The files a trace has posted to an endpoint, in order.\<close>

fun form_files :: "(string \<times> form_value) list \<Rightarrow> upload list" where
  "form_files [] = []"
| "form_files ((k, FormFile f) # fs) = f # form_files fs"
| "form_files ((k, FormText t) # fs) = form_files fs"

fun posted_files :: "string \<Rightarrow> effect list \<Rightarrow> upload list" where
  "posted_files url [] = []"
| "posted_files url (HttpPostForm u fs # es) =
     (if u = url then form_files fs @ posted_files url es else posted_files url es)"
| "posted_files url (e # es) = posted_files url es"

text \<open>
  A file the file input lets through, and what every event keeps: the files posted so far
  and the selected file are such files.
\<close>

definition accepted :: "upload \<Rightarrow> bool" where
  "accepted f = (endsWith (file_name f) ''.txt'' \<or> endsWith (file_name f) ''.docx'')"

definition files_ok :: "string \<Rightarrow> summarizer \<Rightarrow> bool" where
  "files_ok url st =
     (list_all accepted (posted_files url (s_trace st)) \<and>
      (case selectedFile st of None \<Rightarrow> True | Some f \<Rightarrow> accepted f))"

section \<open>The price-history window\<close>

lemma slice_last_length: "length (slice_last n xs) \<le> n"
  by (simp add: slice_last_def)

lemma slice_last_snoc:
  "slice_last n (slice_last n xs @ [x]) = slice_last n (xs @ [x])"
proof (cases "length xs < n")
  case True
  then show ?thesis by (simp add: slice_last_def)
next
  case False
  show ?thesis
  proof (cases n)
    case 0
    then show ?thesis by (simp add: slice_last_def)
  next
    case (Suc m)
    with False have le: "Suc m \<le> length xs" by simp
    then have "Suc (length xs) - Suc m = Suc (length xs - Suc m)" by simp
    with le Suc show ?thesis by (simp add: slice_last_def)
  qed
qed

lemma priceHistory_onmessage:
  "priceHistory (onmessage b rsym p st) =
     (if is_market_data p then slice_last 50 (priceHistory st @ [sample_of p])
      else priceHistory st)"
  by (cases p)
     (auto simp: onmessage_def handleWebSocketMessage_def emit_def fetchRecentAnalyses_def
           split: option.splits)

lemma priceHistory_receive:
  "priceHistory st = slice_last 50 hs \<Longrightarrow>
   priceHistory (receive b rsym ps st) = slice_last 50 (hs @ map sample_of (filter is_market_data ps))"
proof (induction ps arbitrary: st hs)
  case Nil
  then show ?case by simp
next
  case (Cons p ps)
  show ?case
  proof (cases "is_market_data p")
    case True
    have "priceHistory (onmessage b rsym p st) = slice_last 50 ((hs @ [sample_of p]))"
      using True Cons.prems by (simp add: priceHistory_onmessage slice_last_snoc)
    from Cons.IH [OF this] True show ?thesis by simp
  next
    case False
    have "priceHistory (onmessage b rsym p st) = slice_last 50 hs"
      using False Cons.prems by (simp add: priceHistory_onmessage)
    from Cons.IH [OF this] False show ?thesis by simp
  qed
qed

lemma priceHistory_frames [simp]:
  "priceHistory (emit e st) = priceHistory st"
  "priceHistory (onopen s st) = priceHistory st"
  "priceHistory (onerror st) = priceHistory st"
  "priceHistory (onclose s st) = priceHistory st"
  "priceHistory (ws_close i st) = priceHistory st"
  "priceHistory (clearTimeout t st) = priceHistory st"
  "priceHistory (mount_effect b st) = priceHistory st"
  by (simp_all add: emit_def onopen_def onerror_def onclose_def setTimeout_def ws_close_def
        clearTimeout_def mount_effect_def fetchRecentAnalyses_def fetchAlerts_def
        fetchSymbols_def Let_def)

lemma priceHistory_connect [simp]:
  "priceHistory (connectWebSocket throws b s st) = priceHistory st"
  by (simp add: connectWebSocket_def Let_def split: option.splits)

lemma priceHistory_cleanup [simp]: "priceHistory (symbol_cleanup st) = priceHistory st"
  by (simp add: symbol_cleanup_def Let_def split: option.splits)

lemma priceHistory_effect [simp]: "priceHistory (symbol_effect throws b st) = priceHistory st"
  by (simp add: symbol_effect_def)

lemma priceHistory_reconnect [simp]: "priceHistory (reconnect throws b s st) = priceHistory st"
  by (simp add: reconnect_def)

lemma priceHistory_step:
  assumes "step throws b ev st = Some st'" and "priceHistory st = slice_last 50 hs"
  shows "priceHistory st' =
     slice_last 50 (hs @ map sample_of (filter is_market_data (payloads [ev])))"
proof (cases ev)
  case (WsMessage i p)
  with assms show ?thesis
    by (auto simp: step_def priceHistory_onmessage slice_last_snoc split: if_splits)
qed (use assms in \<open>auto simp: step_def split: if_splits\<close>)

lemma payloads_Cons: "payloads (ev # evs) = payloads [ev] @ payloads evs"
  by (cases ev) simp_all

lemma priceHistory_run:
  "run throws b evs st = Some st' \<Longrightarrow> priceHistory st = slice_last 50 hs \<Longrightarrow>
   priceHistory st' = slice_last 50 (hs @ map sample_of (filter is_market_data (payloads evs)))"
proof (induction evs arbitrary: st hs)
  case Nil
  then show ?case by simp
next
  case (Cons ev evs)
  from Cons.prems(1) obtain st1 where s1: "step throws b ev st = Some st1"
    and r1: "run throws b evs st1 = Some st'"
    by (auto split: option.splits)
  from Cons.IH [OF r1 priceHistory_step [OF s1 Cons.prems(2)]]
  show ?case by (simp add: payloads_Cons [of ev evs])
qed

text \<open>
  C1. Whatever payloads arrive after mounting, the price history holds at most 50 samples,
  and it is exactly the last 50 samples of the market-data messages received, in the order
  they arrived: when a sample does not fit, the oldest ones are dropped. This holds for
  the message handler run on any sequence of payloads, and in every state the dashboard
  reaches through any sequence of events, for the payloads its sockets have delivered.
\<close>

theorem priceHistory_window:
  "length (priceHistory (receive b rsym ps initial)) \<le> 50 \<and>
   priceHistory (receive b rsym ps initial) =
     drop (length (filter is_market_data ps) - 50) (map sample_of (filter is_market_data ps)) \<and>
   (\<forall>st. run throws b evs initial = Some st \<longrightarrow>
      length (priceHistory st) \<le> 50 \<and>
      priceHistory st =
        drop (length (filter is_market_data (payloads evs)) - 50)
          (map sample_of (filter is_market_data (payloads evs))))"
proof -
  have start: "priceHistory initial = slice_last 50 []"
    by (simp add: initial_def slice_last_def)
  from priceHistory_receive [OF start, of b rsym ps]
  have eq: "priceHistory (receive b rsym ps initial) =
      slice_last 50 (map sample_of (filter is_market_data ps))"
    by simp
  have handler: "length (priceHistory (receive b rsym ps initial)) \<le> 50 \<and>
      priceHistory (receive b rsym ps initial) =
        drop (length (filter is_market_data ps) - 50) (map sample_of (filter is_market_data ps))"
    unfolding eq by (simp add: slice_last_def)
  have system: "length (priceHistory st) \<le> 50 \<and>
      priceHistory st =
        drop (length (filter is_market_data (payloads evs)) - 50)
          (map sample_of (filter is_market_data (payloads evs)))"
    if "run throws b evs initial = Some st" for st
  proof -
    from priceHistory_run [OF that start]
    have "priceHistory st = slice_last 50 (map sample_of (filter is_market_data (payloads evs)))"
      by simp
    then show ?thesis by (simp add: slice_last_def)
  qed
  from handler system show ?thesis by blast
qed

text \<open>
  The example of the specification: after a message with price 191.23 and one with price
  190.00 the history ends with these two samples. And after sixty equal messages fifty
  samples are left.
\<close>

theorem priceHistory_window_witness:
  "priceHistory (the (run never_throws ''http://h''
     [Mount, WsOpen 0,
      WsMessage 0 (Some (Obj [(''type'', Str ''market_data''), (''price'', Num 191.23),
        (''volume'', Num 1500000)])),
      WsMessage 0 (Some (Obj [(''type'', Str ''market_data''), (''price'', Num 190),
        (''volume'', Num 1500000)]))] initial)) =
     [\<lparr>timestamp = Undefined, price = Num 191.23, volume = Num 1500000\<rparr>,
      \<lparr>timestamp = Undefined, price = Num 190, volume = Num 1500000\<rparr>] \<and>
   priceHistory (receive ''http://h'' ''AAPL''
     (replicate 60 (Some (Obj [(''type'', Str ''market_data''), (''price'', Num 190)]))) initial) =
     replicate 50 \<lparr>timestamp = Undefined, price = Num 190, volume = Undefined\<rparr>"
proof -
  let ?evs = "[Mount, WsOpen 0,
      WsMessage 0 (Some (Obj [(''type'', Str ''market_data''), (''price'', Num 191.23),
        (''volume'', Num 1500000)])),
      WsMessage 0 (Some (Obj [(''type'', Str ''market_data''), (''price'', Num 190),
        (''volume'', Num 1500000)]))]"
  let ?ps = "replicate 60 (Some (Obj [(''type'', Str ''market_data''), (''price'', Num 190)]))"
  let ?st = "the (run never_throws ''http://h'' ?evs initial)"
  have r: "run never_throws ''http://h'' ?evs initial = Some ?st"
    by (simp add: step_def initial_def symbol_effect_def mount_effect_def connectWebSocket_def
        emit_def fetchRecentAnalyses_def fetchAlerts_def fetchSymbols_def onopen_def
        onmessage_def handleWebSocketMessage_def never_throws_def Let_def)
  note w = priceHistory_window [of "''http://h''" "''AAPL''" ?ps never_throws ?evs]
  from w [THEN conjunct2, THEN conjunct2, rule_format, OF r, THEN conjunct2]
  have first: "priceHistory ?st =
      [\<lparr>timestamp = Undefined, price = Num 191.23, volume = Num 1500000\<rparr>,
       \<lparr>timestamp = Undefined, price = Num 190, volume = Num 1500000\<rparr>]"
    by simp
  from w [THEN conjunct2, THEN conjunct1]
  have second: "priceHistory (receive ''http://h'' ''AAPL'' ?ps initial) =
     replicate 50 \<lparr>timestamp = Undefined, price = Num 190, volume = Undefined\<rparr>"
    by simp
  from first second show ?thesis by (intro conjI)
qed

section \<open>Alert submission\<close>

lemma truthy_get_prop: "truthy v \<Longrightarrow> get_prop v k = Some (opt_prop v k)"
  by (cases v) (simp_all split: option.splits)

text \<open>
  C5. When the alert price is absent or empty, or there is no current quote,
  \<^verbatim>\<open>createPriceAlert\<close> only shows the error toast: the state is otherwise unchanged and
  the trace gains no request, so no POST to the alerts endpoint is issued.
\<close>

theorem createPriceAlert_rejected:
  assumes "alertPrice st = Undefined \<or> alertPrice st = Null \<or> alertPrice st = Str [] \<or>
           currentData st = Undefined \<or> currentData st = Null"
  shows "createPriceAlert b now parseFloat st =
           st\<lparr>trace := trace st @ [ToastError ''Please enter a valid price'']\<rparr> \<and>
         filter is_request (trace (createPriceAlert b now parseFloat st)) =
           filter is_request (trace st)"
proof -
  from assms have "\<not> truthy (alertPrice st) \<or> \<not> truthy (currentData st)"
    by auto
  then show ?thesis
    by (auto simp: createPriceAlert_def emit_def)
qed

theorem createPriceAlert_rejected_witness:
  "createPriceAlert ''http://localhost:8001'' ''1700000000000'' id
     (initial\<lparr>currentData := Obj [(''price'', Num 191.23)]\<rparr>) =
   initial\<lparr>currentData := Obj [(''price'', Num 191.23)],
           trace := [ToastError ''Please enter a valid price'']\<rparr>"
  using createPriceAlert_rejected [of "initial\<lparr>currentData := Obj [(''price'', Num 191.23)]\<rparr>"
      "''http://localhost:8001''" "''1700000000000''" id]
  by (simp add: initial_def)

text \<open>
  C6. With a non-empty alert price and a current quote, \<^verbatim>\<open>createPriceAlert\<close> issues one
  POST to the alerts endpoint, and the record it carries has the locally made identifier,
  the selected symbol, the selected condition, the parsed input as target price, the
  price of the current quote as current price, and \<^verbatim>\<open>triggered: false\<close>.
\<close>

theorem createPriceAlert_record:
  assumes "alertPrice st = Str s" and "s \<noteq> []" and "truthy (currentData st)"
  shows "trace (createPriceAlert b now parseFloat st) = trace st @
           [HttpPost (API b @ ''/alerts'') (Obj [
              (''id'', Str now),
              (''symbol'', Str (selectedSymbol st)),
              (''condition'', alertType st),
              (''target_price'', parseFloat (Str s)),
              (''current_price'', opt_prop (currentData st) ''price''),
              (''triggered'', Bool False)])]"
proof -
  from assms(3) have "get_prop (currentData st) ''price'' =
      Some (opt_prop (currentData st) ''price'')"
    by (rule truthy_get_prop)
  with assms show ?thesis
    by (simp add: createPriceAlert_def alertData_def emit_def del: opt_prop.simps)
qed

text \<open>
  The example of the specification: condition \<^verbatim>\<open>above\<close>, target \<^verbatim>\<open>200\<close>, quote price
  \<^verbatim>\<open>191.23\<close>, with a \<^verbatim>\<open>parseFloat\<close> that reads \<^verbatim>\<open>"200"\<close> as 200.
\<close>

theorem createPriceAlert_record_witness:
  "trace (createPriceAlert ''http://localhost:8001'' ''1700000000000'' (\<lambda>v. Num 200)
     (initial\<lparr>alertPrice := Str ''200'',
              currentData := Obj [(''type'', Str ''market_data''), (''price'', Num 191.23)]\<rparr>)) =
   [HttpPost ''http://localhost:8001/api/alerts'' (Obj [
      (''id'', Str ''1700000000000''),
      (''symbol'', Str ''AAPL''),
      (''condition'', Str ''above''),
      (''target_price'', Num 200),
      (''current_price'', Num 191.23),
      (''triggered'', Bool False)])]"
  using createPriceAlert_record [of
      "initial\<lparr>alertPrice := Str ''200'',
         currentData := Obj [(''type'', Str ''market_data''), (''price'', Num 191.23)]\<rparr>"
      "''200''" "''http://localhost:8001''" "''1700000000000''" "\<lambda>v. Num 200"]
  by (simp add: initial_def API_def)

text \<open>
  C10. When the POST is rejected, the continuation of \<^verbatim>\<open>createPriceAlert\<close> only logs the
  error and shows the error toast: the alert price and the alert list stay as they are
  and no request is issued. When the POST resolves, the alert price is cleared and the
  alert list is requested again.
\<close>

theorem createPriceAlert_settled_effects:
  "createPriceAlert_settled b False st =
     st\<lparr>trace := trace st @
        [ConsoleError ''Error creating alert:'', ToastError ''Failed to create alert'']\<rparr> \<and>
   alertPrice (createPriceAlert_settled b False st) = alertPrice st \<and>
   alerts (createPriceAlert_settled b False st) = alerts st \<and>
   filter is_request (trace (createPriceAlert_settled b False st)) =
     filter is_request (trace st) \<and>
   alertPrice (createPriceAlert_settled b True st) = Str [] \<and>
   trace (createPriceAlert_settled b True st) = trace st @
     [ToastSuccess ''Price alert created successfully!'', HttpGet (API b @ ''/alerts'')]"
  by (simp add: createPriceAlert_settled_def emit_def fetchAlerts_def)

section \<open>The Active Alerts panel\<close>




section \<open>Absent indicators\<close>

text \<open>
  The text of the RSI card and of the four cards of the indicator grid: a field that is
  absent from the indicator set shows as \<^verbatim>\<open>N/A\<close>.
\<close>

lemma absent_indicator_siblings:
  "(get_prop ind ''rsi'' = Some Undefined \<longrightarrow> rsi_text ind = Some (Literal ''N/A'')) \<and>
   (get_prop ind ''sma_20'' = Some Undefined \<longrightarrow> sma_20_text ind = Some (Literal ''N/A'')) \<and>
   (get_prop ind ''ema_20'' = Some Undefined \<longrightarrow> ema_20_text ind = Some (Literal ''N/A'')) \<and>
   (get_prop ind ''bollinger_bands'' = Some Undefined \<longrightarrow>
      bb_upper_text ind = Some (Literal ''N/A'') \<and> bb_lower_text ind = Some (Literal ''N/A'')) \<and>
   (get_prop ind ''bollinger_bands'' = Some bb \<and> opt_prop bb ''upper'' = Undefined \<longrightarrow>
      bb_upper_text ind = Some (Literal ''N/A'')) \<and>
   (get_prop ind ''bollinger_bands'' = Some bb \<and> opt_prop bb ''lower'' = Undefined \<longrightarrow>
      bb_lower_text ind = Some (Literal ''N/A''))"
  by (simp add: rsi_text_def sma_20_text_def ema_20_text_def bb_upper_text_def
        bb_lower_text_def bb_text_def formatNumber_def)

text \<open>
  C8 fails on the code. The claim is that every indicator field that is absent from the
  indicator set shows as an unavailable marker and never as zero. With the empty indicator
  set, which is the state before the first message and the state after a market-data
  message without indicators, the VWAP card shows \<^verbatim>\<open>$0.00\<close>, where the RSI, SMA, EMA and
  Bollinger texts show \<^verbatim>\<open>N/A\<close>; and the progress bar under the RSI is given the value 0.
\<close>

theorem absent_vwap_shows_zero:
  "indicators initial = Obj [] \<and>
   get_prop (Obj []) ''vwap'' = Some Undefined \<and>
   vwap_text (Obj []) = Some (Literal ''$0.00'') \<and>
   vwap_text (Obj []) \<noteq> Some (Literal ''N/A'') \<and>
   get_prop (Obj []) ''rsi'' = Some Undefined \<and>
   rsi_progress (Obj []) = Some (Num 0) \<and>
   rsi_text (Obj []) = Some (Literal ''N/A'') \<and>
   sma_20_text (Obj []) = Some (Literal ''N/A'') \<and>
   ema_20_text (Obj []) = Some (Literal ''N/A'') \<and>
   bb_upper_text (Obj []) = Some (Literal ''N/A'') \<and>
   bb_lower_text (Obj []) = Some (Literal ''N/A'')"
  by (simp add: initial_def vwap_text_def rsi_progress_def rsi_text_def sma_20_text_def
        ema_20_text_def bb_upper_text_def bb_lower_text_def bb_text_def formatNumber_def)

section \<open>The streaming connection: what every event keeps\<close>

lemma emit_fields [simp]:
  "sockets (emit e st) = sockets st" "wsRef (emit e st) = wsRef st"
  "timers (emit e st) = timers st" "clock (emit e st) = clock st"
  "reconnectTimeoutRef (emit e st) = reconnectTimeoutRef st"
  "phase (emit e st) = phase st" "selectedSymbol (emit e st) = selectedSymbol st"
  by (simp_all add: emit_def)

lemma onmessage_fields [simp]:
  "sockets (onmessage b r p st) = sockets st" "wsRef (onmessage b r p st) = wsRef st"
  "timers (onmessage b r p st) = timers st" "clock (onmessage b r p st) = clock st"
  "reconnectTimeoutRef (onmessage b r p st) = reconnectTimeoutRef st"
  "phase (onmessage b r p st) = phase st" "selectedSymbol (onmessage b r p st) = selectedSymbol st"
  by (simp_all add: onmessage_def handleWebSocketMessage_def fetchRecentAnalyses_def
        split: option.splits)

lemma onopen_fields [simp]:
  "sockets (onopen s st) = sockets st" "wsRef (onopen s st) = wsRef st"
  "timers (onopen s st) = timers st" "clock (onopen s st) = clock st"
  "reconnectTimeoutRef (onopen s st) = reconnectTimeoutRef st"
  "phase (onopen s st) = phase st" "selectedSymbol (onopen s st) = selectedSymbol st"
  by (simp_all add: onopen_def)

lemma onerror_fields [simp]:
  "sockets (onerror st) = sockets st" "wsRef (onerror st) = wsRef st"
  "timers (onerror st) = timers st" "clock (onerror st) = clock st"
  "reconnectTimeoutRef (onerror st) = reconnectTimeoutRef st"
  "phase (onerror st) = phase st" "selectedSymbol (onerror st) = selectedSymbol st"
  by (simp_all add: onerror_def)

lemma onclose_fields [simp]:
  "sockets (onclose s st) = sockets st" "wsRef (onclose s st) = wsRef st"
  "timers (onclose s st) = timers st @
     [\<lparr>t_symbol = s, t_delay = 3000, t_due = clock st + 3000, t_pending = True\<rparr>]"
  "clock (onclose s st) = clock st"
  "reconnectTimeoutRef (onclose s st) = Some (Suc (length (timers st)))"
  "phase (onclose s st) = phase st" "selectedSymbol (onclose s st) = selectedSymbol st"
  by (simp_all add: onclose_def setTimeout_def Let_def)

lemma ws_close_fields [simp]:
  "sockets (ws_close i st) = (sockets st)[i := closing (sockets st ! i)]"
  "wsRef (ws_close i st) = wsRef st"
  "timers (ws_close i st) = timers st" "clock (ws_close i st) = clock st"
  "reconnectTimeoutRef (ws_close i st) = reconnectTimeoutRef st"
  "phase (ws_close i st) = phase st" "selectedSymbol (ws_close i st) = selectedSymbol st"
  by (simp_all add: ws_close_def list_update_beyond)

lemma clearTimeout_fields [simp]:
  "sockets (clearTimeout t st) = sockets st" "wsRef (clearTimeout t st) = wsRef st"
  "timers (clearTimeout t st) =
     (if 0 < t then (timers st)[t - 1 := (timers st ! (t - 1))\<lparr>t_pending := False\<rparr>] else timers st)"
  "clock (clearTimeout t st) = clock st"
  "reconnectTimeoutRef (clearTimeout t st) = reconnectTimeoutRef st"
  "phase (clearTimeout t st) = phase st" "selectedSymbol (clearTimeout t st) = selectedSymbol st"
  by (simp_all add: clearTimeout_def list_update_beyond)

lemma connectWebSocket_fields [simp]:
  "sockets (connectWebSocket throws b s st) = close_at (wsRef st) (sockets st) @
     (if throws (wsUrl b s) then []
      else [\<lparr>ws_symbol = s, ws_url = wsUrl b s, ws_state = CONNECTING\<rparr>])"
  "wsRef (connectWebSocket throws b s st) =
     (if throws (wsUrl b s) then wsRef st else Some (length (sockets st)))"
  "timers (connectWebSocket throws b s st) = timers st"
  "clock (connectWebSocket throws b s st) = clock st"
  "reconnectTimeoutRef (connectWebSocket throws b s st) = reconnectTimeoutRef st"
  "phase (connectWebSocket throws b s st) = phase st"
  "selectedSymbol (connectWebSocket throws b s st) = selectedSymbol st"
  by (simp_all add: connectWebSocket_def close_at_def Let_def split: option.splits)

lemma symbol_cleanup_fields [simp]:
  "sockets (symbol_cleanup st) = close_at (wsRef st) (sockets st)"
  "wsRef (symbol_cleanup st) = wsRef st"
  "timers (symbol_cleanup st) =
     (case reconnectTimeoutRef st of
        Some t \<Rightarrow> if 0 < t then (timers st)[t - 1 := (timers st ! (t - 1))\<lparr>t_pending := False\<rparr>]
                  else timers st
      | None \<Rightarrow> timers st)"
  "clock (symbol_cleanup st) = clock st"
  "reconnectTimeoutRef (symbol_cleanup st) = reconnectTimeoutRef st"
  "phase (symbol_cleanup st) = phase st"
  "selectedSymbol (symbol_cleanup st) = selectedSymbol st"
  by (simp_all add: symbol_cleanup_def close_at_def Let_def split: option.splits)

lemma mount_effect_fields [simp]:
  "sockets (mount_effect b st) = sockets st" "wsRef (mount_effect b st) = wsRef st"
  "timers (mount_effect b st) = timers st" "clock (mount_effect b st) = clock st"
  "reconnectTimeoutRef (mount_effect b st) = reconnectTimeoutRef st"
  "phase (mount_effect b st) = phase st" "selectedSymbol (mount_effect b st) = selectedSymbol st"
  by (simp_all add: mount_effect_def fetchRecentAnalyses_def fetchAlerts_def fetchSymbols_def)

lemma symbol_effect_fields [simp]:
  "sockets (symbol_effect throws b st) =
     (if selectedSymbol st \<noteq> [] then close_at (wsRef st) (sockets st) @
        (if throws (wsUrl b (selectedSymbol st)) then []
         else [\<lparr>ws_symbol = selectedSymbol st, ws_url = wsUrl b (selectedSymbol st),
                ws_state = CONNECTING\<rparr>])
      else sockets st)"
  "wsRef (symbol_effect throws b st) =
     (if selectedSymbol st \<noteq> [] \<and> \<not> throws (wsUrl b (selectedSymbol st))
      then Some (length (sockets st)) else wsRef st)"
  "timers (symbol_effect throws b st) = timers st"
  "clock (symbol_effect throws b st) = clock st"
  "reconnectTimeoutRef (symbol_effect throws b st) = reconnectTimeoutRef st"
  "phase (symbol_effect throws b st) = phase st"
  "selectedSymbol (symbol_effect throws b st) = selectedSymbol st"
  by (simp_all add: symbol_effect_def)

lemma reconnect_fields [simp]:
  "sockets (reconnect throws b s st) = close_at (wsRef st) (sockets st) @
     (if throws (wsUrl b s) then []
      else [\<lparr>ws_symbol = s, ws_url = wsUrl b s, ws_state = CONNECTING\<rparr>])"
  "wsRef (reconnect throws b s st) =
     (if throws (wsUrl b s) then wsRef st else Some (length (sockets st)))"
  "timers (reconnect throws b s st) = timers st"
  "clock (reconnect throws b s st) = clock st"
  "reconnectTimeoutRef (reconnect throws b s st) = reconnectTimeoutRef st"
  "phase (reconnect throws b s st) = phase st"
  "selectedSymbol (reconnect throws b s st) = selectedSymbol st"
  by (simp_all add: reconnect_def)

lemma sole_live_iff:
  "sole_live st \<longleftrightarrow> (\<forall>i<length (sockets st). live (sockets st ! i) \<longrightarrow> wsRef st = Some i)"
  by (auto simp: sole_live_def list_all_iff)

lemma not_live_closing [simp]: "\<not> live (closing w)"
  by (simp add: live_def closing_def)

lemma length_close_at [simp]: "length (close_at r ws) = length ws"
  by (simp add: close_at_def split: option.splits)

lemma nth_close_at:
  "i < length ws \<Longrightarrow> close_at r ws ! i = (if r = Some i then closing (ws ! i) else ws ! i)"
  by (cases r) (auto simp: close_at_def)

lemma close_at_not_live:
  "\<forall>i<length ws. live (ws ! i) \<longrightarrow> r = Some i \<Longrightarrow> i < length ws \<Longrightarrow> \<not> live (close_at r ws ! i)"
  by (auto simp: nth_close_at)

lemma close_at_keeps:
  "i < length ws \<Longrightarrow> live (close_at r ws ! i) \<Longrightarrow> live (ws ! i)"
  by (simp add: nth_close_at split: if_splits)

lemma step_sole_live:
  assumes "step throws b ev st = Some st'" and "sole_live st"
  shows "sole_live st'"
proof (cases ev)
  case Mount
  with assms show ?thesis
    by (auto simp: step_def sole_live_iff nth_append close_at_not_live split: if_splits)
next
  case (SelectSymbol s)
  with assms show ?thesis
    by (auto simp: step_def sole_live_iff nth_append close_at_not_live
        dest: close_at_keeps split: if_splits)
next
  case Unmount
  with assms show ?thesis
    by (auto simp: step_def sole_live_iff nth_close_at split: if_splits)
next
  case (WsOpen i)
  with assms show ?thesis
    by (auto simp: step_def sole_live_iff nth_list_update live_def split: if_splits)
next
  case (WsMessage i p)
  with assms show ?thesis
    by (auto simp: step_def sole_live_iff split: if_splits)
next
  case (WsError i)
  with assms show ?thesis
    by (auto simp: step_def sole_live_iff split: if_splits)
next
  case (WsClose i)
  with assms show ?thesis
    by (auto simp: step_def sole_live_iff nth_list_update live_def split: if_splits)
next
  case (TimerFires t)
  with assms show ?thesis
    by (auto simp: step_def sole_live_iff nth_append close_at_not_live split: if_splits)
next
  case (Elapse d)
  with assms show ?thesis
    by (auto simp: step_def sole_live_iff split: if_splits)
qed


lemma run_sole_live:
  "run throws b evs st = Some st' \<Longrightarrow> sole_live st \<Longrightarrow> sole_live st'"
proof (induction evs arbitrary: st)
  case Nil
  then show ?case by simp
next
  case (Cons ev evs)
  from Cons.prems(1) obtain st1 where s1: "step throws b ev st = Some st1"
    and r1: "run throws b evs st1 = Some st'"
    by (auto split: option.splits)
  from step_sole_live [OF s1 Cons.prems(2)] Cons.IH [OF r1] show ?case by simp
qed

lemma sole_live_initial: "sole_live initial"
  by (simp add: sole_live_iff initial_def)

lemma filter_at_most_one:
  assumes "distinct xs" and "\<forall>x\<in>set xs. P x \<longrightarrow> x = k"
  shows "length (filter P xs) \<le> 1"
proof -
  have "set (filter P xs) \<subseteq> {k}" using assms(2) by auto
  then have "card (set (filter P xs)) \<le> card {k}"
    by (intro card_mono) simp_all
  moreover have "length (filter P xs) = card (set (filter P xs))"
    using assms(1) by (intro distinct_card [symmetric]) simp
  ultimately show ?thesis by simp
qed

lemma sole_live_one: "sole_live st \<Longrightarrow> length (live_sockets st) \<le> 1"
proof (cases "wsRef st")
  case None
  assume "sole_live st"
  with None have "filter (\<lambda>i. live (sockets st ! i)) [0..<length (sockets st)] = []"
    by (auto simp: sole_live_iff filter_empty_conv)
  then show ?thesis by (simp add: live_sockets_def)
next
  case (Some k)
  assume "sole_live st"
  with Some have "\<forall>i\<in>set [0..<length (sockets st)]. live (sockets st ! i) \<longrightarrow> i = k"
    by (auto simp: sole_live_iff)
  from filter_at_most_one [OF _ this] show ?thesis by (simp add: live_sockets_def)
qed

lemma timers_ok_iff:
  "timers_ok st \<longleftrightarrow> (\<forall>t\<in>set (timers st). t_pending t \<longrightarrow> clock st \<le> t_due t)"
  by (simp add: timers_ok_def list_all_iff)

lemma timers_grow_iff:
  "timers_grow st st' \<longleftrightarrow>
     length (timers st) \<le> length (timers st') \<and>
     (\<forall>k<length (timers st). same_timer (timers st ! k) (timers st' ! k))"
  by (auto simp: timers_grow_def list_all2_conv_all_nth)

lemma same_timer_refl [simp]: "same_timer t t"
  by (simp add: same_timer_def)

lemma same_timer_cleared [simp]: "same_timer t (t\<lparr>t_pending := False\<rparr>)"
  by (simp add: same_timer_def)

lemma same_timer_trans: "same_timer t t' \<Longrightarrow> same_timer t' t'' \<Longrightarrow> same_timer t t''"
  by (auto simp: same_timer_def split: if_splits)

lemma timers_grow_refl [simp]: "timers_grow st st"
  by (simp add: timers_grow_iff)

lemma timers_grow_trans:
  "timers_grow st st' \<Longrightarrow> timers_grow st' st'' \<Longrightarrow> timers_grow st st''"
  unfolding timers_grow_iff
  by (meson le_trans less_le_trans same_timer_trans)

lemma cleared_ok:
  assumes "t \<in> set (ts[k := (ts ! k)\<lparr>t_pending := False\<rparr>])" and "t_pending t"
    and "\<forall>t\<in>set ts. t_pending t \<longrightarrow> c \<le> t_due t"
  shows "c \<le> t_due t"
proof -
  from assms(1) have "t = (ts ! k)\<lparr>t_pending := False\<rparr> \<or> t \<in> set ts"
    using set_update_subset_insert [of ts k] by auto
  with assms(2,3) show ?thesis by auto
qed

lemma cleared_same:
  "k < length ts \<Longrightarrow> same_timer (ts ! k) (ts[j := (ts ! j)\<lparr>t_pending := False\<rparr>] ! k)"
  by (cases "j = k") simp_all

lemma timers_ok_eq:
  "timers st' = timers st \<Longrightarrow> clock st' = clock st \<Longrightarrow> timers_ok st' = timers_ok st"
  by (simp add: timers_ok_def)

lemma timers_ok_cleared:
  assumes "timers_ok st" and "timers st' = (timers st)[k := (timers st ! k)\<lparr>t_pending := False\<rparr>]"
    and "clock st' = clock st"
  shows "timers_ok st'"
  unfolding timers_ok_iff
proof (intro ballI impI)
  fix t assume "t \<in> set (timers st')" and "t_pending t"
  with assms show "clock st' \<le> t_due t"
    using cleared_ok [of t "timers st" k "clock st"] by (simp add: timers_ok_iff)
qed

lemma timers_ok_cleanup:
  assumes "timers_ok st"
  shows "timers_ok (symbol_cleanup st)"
proof (cases "reconnectTimeoutRef st")
  case None
  then have "timers_ok (symbol_cleanup st) = timers_ok st"
    by (intro timers_ok_eq) simp_all
  with assms show ?thesis by simp
next
  case (Some t)
  show ?thesis
  proof (cases "0 < t")
    case True
    with Some show ?thesis
      by (intro timers_ok_cleared [OF assms, of _ "t - 1"]) simp_all
  next
    case False
    with Some have "timers_ok (symbol_cleanup st) = timers_ok st"
      by (intro timers_ok_eq) simp_all
    with assms show ?thesis by simp
  qed
qed

lemma timers_ok_effect: "timers_ok (symbol_effect throws b st) = timers_ok st"
  by (rule timers_ok_eq) simp_all

lemma step_timers_ok:
  assumes "step throws b ev st = Some st'" and "timers_ok st"
  shows "timers_ok st'"
proof (cases ev)
  case (SelectSymbol s)
  have "timers_ok (st\<lparr>selectedSymbol := s\<rparr>)"
    using assms(2) timers_ok_eq [of "st\<lparr>selectedSymbol := s\<rparr>" st] by simp
  then have "timers_ok (symbol_effect throws b (symbol_cleanup (st\<lparr>selectedSymbol := s\<rparr>)))"
    by (simp only: timers_ok_effect timers_ok_cleanup)
  with SelectSymbol assms show ?thesis
    by (auto simp: step_def split: if_splits)
next
  case Unmount
  have "timers_ok (st\<lparr>phase := Unmounted\<rparr>)"
    using assms(2) timers_ok_eq [of "st\<lparr>phase := Unmounted\<rparr>" st] by simp
  then have "timers_ok (symbol_cleanup (st\<lparr>phase := Unmounted\<rparr>))"
    by (rule timers_ok_cleanup)
  with Unmount assms show ?thesis
    by (auto simp: step_def split: if_splits)
next
  case (TimerFires t)
  with assms(1) have "timers st' = (timers st)[t - 1 := (timers st ! (t - 1))\<lparr>t_pending := False\<rparr>]"
    and "clock st' = clock st"
    by (auto simp: step_def split: if_splits)
  then show ?thesis
    by (rule timers_ok_cleared [OF assms(2)])
next
  case (Elapse d)
  with assms show ?thesis
    by (auto simp: step_def timers_ok_iff may_elapse_def list_all_iff split: if_splits)
qed (use assms in \<open>auto simp: step_def timers_ok_iff split: if_splits\<close>)

lemma step_timers_grow:
  assumes "step throws b ev st = Some st'"
  shows "timers_grow st st'"
proof (cases ev)
  case (WsClose i)
  with assms show ?thesis
    by (auto simp: step_def timers_grow_iff nth_append split: if_splits)
qed (use assms in \<open>auto simp: step_def timers_grow_iff cleared_same split: if_splits option.splits\<close>)

lemma run_timers_ok:
  "run throws b evs st = Some st' \<Longrightarrow> timers_ok st \<Longrightarrow> timers_ok st'"
proof (induction evs arbitrary: st)
  case Nil
  then show ?case by simp
next
  case (Cons ev evs)
  from Cons.prems(1) obtain st1 where s1: "step throws b ev st = Some st1"
    and r1: "run throws b evs st1 = Some st'"
    by (auto split: option.splits)
  from step_timers_ok [OF s1 Cons.prems(2)] Cons.IH [OF r1] show ?case by simp
qed

lemma run_timers_grow:
  "run throws b evs st = Some st' \<Longrightarrow> timers_grow st st'"
proof (induction evs arbitrary: st)
  case Nil
  then show ?case by simp
next
  case (Cons ev evs)
  from Cons.prems(1) obtain st1 where s1: "step throws b ev st = Some st1"
    and r1: "run throws b evs st1 = Some st'"
    by (auto split: option.splits)
  from timers_grow_trans [OF step_timers_grow [OF s1] Cons.IH [OF r1]] show ?case .
qed

lemma timers_ok_initial: "timers_ok initial"
  by (simp add: timers_ok_def initial_def)


lemmas fields = emit_fields onmessage_fields onopen_fields onerror_fields onclose_fields
  ws_close_fields clearTimeout_fields connectWebSocket_fields symbol_cleanup_fields
  mount_effect_fields symbol_effect_fields reconnect_fields

lemmas eval_defs = step_def initial_def symbol_effect_def mount_effect_def connectWebSocket_def
  emit_def fetchRecentAnalyses_def fetchAlerts_def fetchSymbols_def onopen_def onclose_def
  onerror_def setTimeout_def symbol_cleanup_def ws_close_def closing_def clearTimeout_def
  may_elapse_def reconnect_def WS_URL_def wsUrl_def API_def never_throws_def Let_def

lemma closing_closing [simp]: "closing (closing w) = closing w"
  by (simp add: closing_def)

lemma close_at_twice [simp]: "close_at r (close_at r ws) = close_at r ws"
proof (cases r)
  case None
  then show ?thesis by (simp add: close_at_def)
next
  case (Some a)
  then show ?thesis
    by (cases "a < length ws") (simp_all add: close_at_def list_update_beyond)
qed

lemma reachable_sole_live: "run throws b evs initial = Some st \<Longrightarrow> sole_live st"
  by (rule run_sole_live [OF _ sole_live_initial])

lemma reachable_timers_ok: "run throws b evs initial = Some st \<Longrightarrow> timers_ok st"
  by (rule run_timers_ok [OF _ timers_ok_initial])

lemma live_sockets_fresh:
  assumes "sole_live st"
  shows "live_sockets (st\<lparr>sockets := close_at (wsRef st) (sockets st) @
            [\<lparr>ws_symbol = s, ws_url = u, ws_state = CONNECTING\<rparr>], wsRef := r\<rparr>) =
         [length (sockets st)]"
proof -
  let ?old = "close_at (wsRef st) (sockets st)"
  let ?new = "\<lparr>ws_symbol = s, ws_url = u, ws_state = CONNECTING\<rparr>"
  have old: "filter (\<lambda>i. live ((?old @ [?new]) ! i)) [0..<length (sockets st)] = []"
    using assms by (auto simp: filter_empty_conv nth_append sole_live_iff nth_close_at)
  have new: "live ((?old @ [?new]) ! length (sockets st))"
    by (simp add: nth_append live_def)
  from old new show ?thesis
    by (simp add: live_sockets_def)
qed

text \<open>
  C2, as the code has it. In every state the dashboard can reach, at most one socket is
  live. A change of the selected symbol calls \<^verbatim>\<open>close()\<close> on the socket the ref holds;
  when the new symbol is not empty and the constructor does not throw, exactly one socket
  is created, it is for the new symbol, the ref holds it, and it is the only live socket.
  When the new symbol is empty, or the constructor throws, no socket is created.
\<close>

theorem symbol_change_connection:
  assumes "run throws b evs initial = Some st"
  shows "length (live_sockets st) \<le> 1 \<and>
   (phase st = Mounted \<and> s \<noteq> selectedSymbol st \<longrightarrow>
      (\<exists>st'. step throws b (SelectSymbol s) st = Some st' \<and>
         sockets st' = close_at (wsRef st) (sockets st) @
           (if s \<noteq> [] \<and> \<not> throws (wsUrl b s)
            then [\<lparr>ws_symbol = s, ws_url = wsUrl b s, ws_state = CONNECTING\<rparr>] else []) \<and>
         (s \<noteq> [] \<and> \<not> throws (wsUrl b s) \<longrightarrow>
            wsRef st' = Some (length (sockets st)) \<and> live_sockets st' = [length (sockets st)])))"
proof -
  from assms have sole: "sole_live st" by (rule reachable_sole_live)
  then have one: "length (live_sockets st) \<le> 1" by (rule sole_live_one)
  have change: "\<exists>st'. step throws b (SelectSymbol s) st = Some st' \<and>
         sockets st' = close_at (wsRef st) (sockets st) @
           (if s \<noteq> [] \<and> \<not> throws (wsUrl b s)
            then [\<lparr>ws_symbol = s, ws_url = wsUrl b s, ws_state = CONNECTING\<rparr>] else []) \<and>
         (s \<noteq> [] \<and> \<not> throws (wsUrl b s) \<longrightarrow>
            wsRef st' = Some (length (sockets st)) \<and> live_sockets st' = [length (sockets st)])"
    if mounted: "phase st = Mounted" and other: "s \<noteq> selectedSymbol st"
  proof -
    let ?st' = "symbol_effect throws b (symbol_cleanup (st\<lparr>selectedSymbol := s\<rparr>))"
    have st': "step throws b (SelectSymbol s) st = Some ?st'"
      using mounted other by (simp add: step_def)
    have socks: "sockets ?st' = close_at (wsRef st) (sockets st) @
           (if s \<noteq> [] \<and> \<not> throws (wsUrl b s)
            then [\<lparr>ws_symbol = s, ws_url = wsUrl b s, ws_state = CONNECTING\<rparr>] else [])"
      by (simp add: close_at_twice)
    have fresh: "wsRef ?st' = Some (length (sockets st)) \<and> live_sockets ?st' = [length (sockets st)]"
      if "s \<noteq> []" and "\<not> throws (wsUrl b s)"
    proof -
      have "live_sockets ?st' = live_sockets (st\<lparr>sockets := sockets ?st', wsRef := wsRef ?st'\<rparr>)"
        by (simp add: live_sockets_def)
      also have "\<dots> = [length (sockets st)]"
        using that live_sockets_fresh [OF sole] by (simp add: close_at_twice)
      finally show ?thesis using that by simp
    qed
    from st' socks fresh show ?thesis by blast
  qed
  from one change show ?thesis by blast
qed


text \<open>
  C4. When a socket of a reachable state reports that it is closed, whatever its state was
  before, exactly one timer is set: it is pending, its delay is 3000 milliseconds, it
  carries the symbol of the closed socket, and the ref holds it. While that timer is
  pending the clock has not passed the moment 3000 milliseconds after the close event,
  and at that moment the timer can fire. Whenever it fires, the clock stands exactly 3000
  milliseconds after the close event, and what runs is \<^verbatim>\<open>connectWebSocket\<close> with the
  symbol of the closed socket. The delay is the same in every reachable state, and nothing
  counts the attempts.
\<close>

theorem close_schedules_reconnect:
  assumes "run throws b evs initial = Some st"
    and "step throws b (WsClose i) st = Some st1"
  shows "timers st1 = timers st @
           [\<lparr>t_symbol = ws_symbol (sockets st ! i), t_delay = 3000,
             t_due = clock st + 3000, t_pending = True\<rparr>] \<and>
         reconnectTimeoutRef st1 = Some (length (timers st1)) \<and>
         (\<forall>evs' st2.
            run throws b evs' st1 = Some st2 \<and> t_pending (timers st2 ! length (timers st)) \<longrightarrow>
              clock st2 \<le> clock st + 3000 \<and>
              (clock st2 = clock st + 3000 \<longrightarrow>
                 step throws b (TimerFires (length (timers st1))) st2 \<noteq> None)) \<and>
         (\<forall>evs' st2 st3.
            run throws b evs' st1 = Some st2 \<and>
            step throws b (TimerFires (length (timers st1))) st2 = Some st3 \<longrightarrow>
              clock st2 = clock st + 3000 \<and>
              st3 = reconnect throws b (ws_symbol (sockets st ! i))
                (st2\<lparr>timers := (timers st2)[length (timers st) :=
                   (timers st2 ! length (timers st))\<lparr>t_pending := False\<rparr>]\<rparr>) \<and>
              sockets st3 = close_at (wsRef st2) (sockets st2) @
                (if throws (wsUrl b (ws_symbol (sockets st ! i))) then []
                 else [\<lparr>ws_symbol = ws_symbol (sockets st ! i),
                        ws_url = wsUrl b (ws_symbol (sockets st ! i)),
                        ws_state = CONNECTING\<rparr>]))"
proof -
  let ?sym = "ws_symbol (sockets st ! i)"
  let ?n = "length (timers st)"
  let ?t = "\<lparr>t_symbol = ?sym, t_delay = 3000, t_due = clock st + 3000, t_pending = True\<rparr>"
  from assms(2) have tm: "timers st1 = timers st @ [?t]"
    and ref: "reconnectTimeoutRef st1 = Some (Suc ?n)"
    by (auto simp: step_def split: if_splits)
  have ok1: "timers_ok st1"
    using step_timers_ok [OF assms(2) reachable_timers_ok [OF assms(1)]] .
  have wait: "\<forall>evs' st2.
      run throws b evs' st1 = Some st2 \<and> t_pending (timers st2 ! ?n) \<longrightarrow>
        clock st2 \<le> clock st + 3000 \<and>
        (clock st2 = clock st + 3000 \<longrightarrow>
           step throws b (TimerFires (length (timers st1))) st2 \<noteq> None)"
  proof (intro allI impI, elim conjE)
    fix evs' st2
    assume later: "run throws b evs' st1 = Some st2"
      and pend: "t_pending (timers st2 ! ?n)"
    from run_timers_grow [OF later] tm
    have same: "same_timer ?t (timers st2 ! ?n)" and len: "?n < length (timers st2)"
      by (auto simp: timers_grow_iff nth_append)
    from same have due: "t_due (timers st2 ! ?n) = clock st + 3000"
      by (simp add: same_timer_def)
    from run_timers_ok [OF later ok1] len pend have "clock st2 \<le> t_due (timers st2 ! ?n)"
      by (auto simp: timers_ok_iff)
    with due have early: "clock st2 \<le> clock st + 3000" by simp
    have "step throws b (TimerFires (length (timers st1))) st2 \<noteq> None"
      if "clock st2 = clock st + 3000"
      using that tm len pend due by (simp add: step_def)
    with early show "clock st2 \<le> clock st + 3000 \<and>
        (clock st2 = clock st + 3000 \<longrightarrow>
           step throws b (TimerFires (length (timers st1))) st2 \<noteq> None)"
      by simp
  qed
  have fire: "\<forall>evs' st2 st3.
      run throws b evs' st1 = Some st2 \<and>
      step throws b (TimerFires (length (timers st1))) st2 = Some st3 \<longrightarrow>
      clock st2 = clock st + 3000 \<and>
      st3 = reconnect throws b ?sym
        (st2\<lparr>timers := (timers st2)[?n := (timers st2 ! ?n)\<lparr>t_pending := False\<rparr>]\<rparr>) \<and>
      sockets st3 = close_at (wsRef st2) (sockets st2) @
        (if throws (wsUrl b ?sym) then []
         else [\<lparr>ws_symbol = ?sym, ws_url = wsUrl b ?sym, ws_state = CONNECTING\<rparr>])"
  proof (intro allI impI, elim conjE)
    fix evs' st2 st3
    assume later: "run throws b evs' st1 = Some st2"
      and fires: "step throws b (TimerFires (length (timers st1))) st2 = Some st3"
    from run_timers_grow [OF later] tm
    have same: "same_timer ?t (timers st2 ! ?n)" and len: "?n < length (timers st2)"
      by (auto simp: timers_grow_iff nth_append)
    from same have sym: "t_symbol (timers st2 ! ?n) = ?sym"
      and due: "t_due (timers st2 ! ?n) = clock st + 3000"
      by (simp_all add: same_timer_def)
    from fires tm have pend: "t_pending (timers st2 ! ?n)"
      and late: "t_due (timers st2 ! ?n) \<le> clock st2"
      and st3: "st3 = reconnect throws b (t_symbol (timers st2 ! ?n))
          (st2\<lparr>timers := (timers st2)[?n := (timers st2 ! ?n)\<lparr>t_pending := False\<rparr>]\<rparr>)"
      by (auto simp: step_def split: if_splits)
    from run_timers_ok [OF later ok1] len pend have "clock st2 \<le> t_due (timers st2 ! ?n)"
      by (auto simp: timers_ok_iff)
    with late due have now: "clock st2 = clock st + 3000" by simp
    from st3 sym have eq: "st3 = reconnect throws b ?sym
        (st2\<lparr>timers := (timers st2)[?n := (timers st2 ! ?n)\<lparr>t_pending := False\<rparr>]\<rparr>)"
      by simp
    then have socks: "sockets st3 = close_at (wsRef st2) (sockets st2) @
        (if throws (wsUrl b ?sym) then []
         else [\<lparr>ws_symbol = ?sym, ws_url = wsUrl b ?sym, ws_state = CONNECTING\<rparr>])"
      by simp
    from now eq socks
    show "clock st2 = clock st + 3000 \<and>
      st3 = reconnect throws b ?sym
        (st2\<lparr>timers := (timers st2)[?n := (timers st2 ! ?n)\<lparr>t_pending := False\<rparr>]\<rparr>) \<and>
      sockets st3 = close_at (wsRef st2) (sockets st2) @
        (if throws (wsUrl b ?sym) then []
         else [\<lparr>ws_symbol = ?sym, ws_url = wsUrl b ?sym, ws_state = CONNECTING\<rparr>])"
      by (intro conjI)
  qed
  from tm ref have ref': "reconnectTimeoutRef st1 = Some (length (timers st1))"
    by simp
  from tm ref' wait fire show ?thesis by (intro conjI)
qed

theorem symbol_change_connection_witness:
  "length (live_sockets (the (run never_throws ''http://h'' [Mount, WsOpen 0] initial))) \<le> 1 \<and>
   map_option sockets (step never_throws ''http://h'' (SelectSymbol ''MSFT'')
      (the (run never_throws ''http://h'' [Mount, WsOpen 0] initial))) =
     Some [\<lparr>ws_symbol = ''AAPL'', ws_url = ''wss://h/api/ws/market/AAPL'', ws_state = CLOSING\<rparr>,
           \<lparr>ws_symbol = ''MSFT'', ws_url = ''wss://h/api/ws/market/MSFT'',
             ws_state = CONNECTING\<rparr>]"
  using symbol_change_connection [of never_throws "''http://h''" "[Mount, WsOpen 0]"
      "the (run never_throws ''http://h'' [Mount, WsOpen 0] initial)" "''MSFT''"]
  by (simp add: eval_defs close_at_def live_sockets_def live_def
      del: fields)


theorem close_schedules_reconnect_witness:
  "clock (the (run never_throws ''http://h'' [Elapse 3000]
      (the (step never_throws ''http://h'' (WsClose 0)
        (the (run never_throws ''http://h'' [Mount, WsOpen 0, Elapse 500] initial)))))) = 3500 \<and>
   sockets (the (step never_throws ''http://h'' (TimerFires 1)
      (the (run never_throws ''http://h'' [Elapse 3000]
        (the (step never_throws ''http://h'' (WsClose 0)
          (the (run never_throws ''http://h'' [Mount, WsOpen 0, Elapse 500] initial)))))))) =
     [\<lparr>ws_symbol = ''AAPL'', ws_url = ''wss://h/api/ws/market/AAPL'', ws_state = CLOSED\<rparr>,
      \<lparr>ws_symbol = ''AAPL'', ws_url = ''wss://h/api/ws/market/AAPL'', ws_state = CONNECTING\<rparr>]"
proof -
  let ?st = "the (run never_throws ''http://h'' [Mount, WsOpen 0, Elapse 500] initial)"
  let ?st1 = "the (step never_throws ''http://h'' (WsClose 0) ?st)"
  let ?st2 = "the (run never_throws ''http://h'' [Elapse 3000] ?st1)"
  let ?st3 = "the (step never_throws ''http://h'' (TimerFires 1) ?st2)"
  have r: "run never_throws ''http://h'' [Mount, WsOpen 0, Elapse 500] initial = Some ?st"
    by (simp add: eval_defs del: fields)
  have s1: "step never_throws ''http://h'' (WsClose 0) ?st = Some ?st1"
    by (simp add: eval_defs del: fields)
  have r2: "run never_throws ''http://h'' [Elapse 3000] ?st1 = Some ?st2"
    by (simp add: eval_defs del: fields)
  have len: "length (timers ?st1) = 1"
    by (simp add: eval_defs del: fields)
  have "step never_throws ''http://h'' (TimerFires 1) ?st2 = Some ?st3"
    by (simp add: eval_defs del: fields)
  with len have s3: "step never_throws ''http://h'' (TimerFires (length (timers ?st1))) ?st2 =
      Some ?st3"
    by (simp only:)
  have before: "clock ?st = 500 \<and> wsRef ?st2 = Some 0 \<and> sockets ?st2 =
      [\<lparr>ws_symbol = ''AAPL'', ws_url = ''wss://h/api/ws/market/AAPL'', ws_state = CLOSED\<rparr>] \<and>
      ws_symbol (sockets ?st ! 0) = ''AAPL''"
    by (simp add: eval_defs del: fields)
  note fired = close_schedules_reconnect [OF r s1, THEN conjunct2, THEN conjunct2,
      THEN conjunct2, rule_format, OF conjI [OF r2 s3]]
  from fired have "clock ?st2 = clock ?st + 3000" by (rule conjunct1)
  moreover from fired [THEN conjunct2, THEN conjunct2] have "sockets ?st3 = close_at (wsRef ?st2) (sockets ?st2) @
      (if never_throws (wsUrl ''http://h'' (ws_symbol (sockets ?st ! 0))) then []
       else [\<lparr>ws_symbol = ws_symbol (sockets ?st ! 0),
              ws_url = wsUrl ''http://h'' (ws_symbol (sockets ?st ! 0)),
              ws_state = CONNECTING\<rparr>])" .
  ultimately show ?thesis
    using before
    by (simp add: close_at_def closing_def never_throws_def wsUrl_def WS_URL_def del: fields)
qed

text \<open>
  The claim as the specification words it fails when the new symbol is empty: the effect
  is guarded by \<^verbatim>\<open>if (selectedSymbol)\<close>, so the socket of the old symbol is closed and no
  socket is opened.
\<close>

theorem empty_symbol_counterexample:
  "map_option sockets (run never_throws ''http://h'' [Mount, WsOpen 0, SelectSymbol []] initial) =
     Some [\<lparr>ws_symbol = ''AAPL'', ws_url = ''wss://h/api/ws/market/AAPL'', ws_state = CLOSING\<rparr>] \<and>
   map_option selectedSymbol
     (run never_throws ''http://h'' [Mount, WsOpen 0, SelectSymbol []] initial) = Some []"
  by (simp add: eval_defs del: fields)

section \<open>A reconnect that outlives the component\<close>

text \<open>
  C3 fails on the code. The dashboard mounts with AAPL and its socket opens; after one
  second the user selects MSFT, so the cleanup calls \<^verbatim>\<open>close()\<close> on the AAPL socket and a
  MSFT socket is created. The close event of the AAPL socket arrives after the cleanup
  and sets timer 1, which will reconnect to AAPL; the MSFT socket fails and its close
  event sets timer 2, which replaces timer 1 in the ref. At 2000 milliseconds both timers
  are pending and the component is unmounted: the cleanup clears timer 2 only. At 4100
  milliseconds timer 1 fires and a socket for AAPL is created, for a component that is
  gone.
\<close>

theorem orphan_reconnect_after_unmount:
  "map_option timers (run never_throws ''http://h''
      [Mount, WsOpen 0, Elapse 1000, SelectSymbol ''MSFT'', Elapse 100, WsClose 0,
       Elapse 100, WsClose 1, Elapse 800] initial) =
     Some [\<lparr>t_symbol = ''AAPL'', t_delay = 3000, t_due = 4100, t_pending = True\<rparr>,
           \<lparr>t_symbol = ''MSFT'', t_delay = 3000, t_due = 4200, t_pending = True\<rparr>] \<and>
   map_option clock (run never_throws ''http://h''
      [Mount, WsOpen 0, Elapse 1000, SelectSymbol ''MSFT'', Elapse 100, WsClose 0,
       Elapse 100, WsClose 1, Elapse 800] initial) = Some 2000 \<and>
   map_option timers (run never_throws ''http://h''
      [Mount, WsOpen 0, Elapse 1000, SelectSymbol ''MSFT'', Elapse 100, WsClose 0,
       Elapse 100, WsClose 1, Elapse 800, Unmount] initial) =
     Some [\<lparr>t_symbol = ''AAPL'', t_delay = 3000, t_due = 4100, t_pending = True\<rparr>,
           \<lparr>t_symbol = ''MSFT'', t_delay = 3000, t_due = 4200, t_pending = False\<rparr>] \<and>
   map_option phase (run never_throws ''http://h''
      [Mount, WsOpen 0, Elapse 1000, SelectSymbol ''MSFT'', Elapse 100, WsClose 0,
       Elapse 100, WsClose 1, Elapse 800, Unmount, Elapse 2100, TimerFires 1] initial) =
     Some Unmounted \<and>
   map_option sockets (run never_throws ''http://h''
      [Mount, WsOpen 0, Elapse 1000, SelectSymbol ''MSFT'', Elapse 100, WsClose 0,
       Elapse 100, WsClose 1, Elapse 800, Unmount, Elapse 2100, TimerFires 1] initial) =
     Some [\<lparr>ws_symbol = ''AAPL'', ws_url = ''wss://h/api/ws/market/AAPL'', ws_state = CLOSED\<rparr>,
           \<lparr>ws_symbol = ''MSFT'', ws_url = ''wss://h/api/ws/market/MSFT'', ws_state = CLOSED\<rparr>,
           \<lparr>ws_symbol = ''AAPL'', ws_url = ''wss://h/api/ws/market/AAPL'',
             ws_state = CONNECTING\<rparr>]"
  by (simp add: eval_defs del: fields)

text \<open>
  The same close event does harm without any failure of the network. After a change from
  AAPL to MSFT the close event of the AAPL socket sets a timer that no cleanup has seen;
  three seconds later its callback calls \<^verbatim>\<open>close()\<close> on the MSFT socket and connects to
  AAPL again, while MSFT is the selected symbol.
\<close>

lemma reconnect_replaces_selected_symbol:
  "map_option sockets (run never_throws ''http://h''
      [Mount, WsOpen 0, Elapse 1000, SelectSymbol ''MSFT'', WsOpen 1, Elapse 100, WsClose 0,
       Elapse 3000, TimerFires 1] initial) =
     Some [\<lparr>ws_symbol = ''AAPL'', ws_url = ''wss://h/api/ws/market/AAPL'', ws_state = CLOSED\<rparr>,
           \<lparr>ws_symbol = ''MSFT'', ws_url = ''wss://h/api/ws/market/MSFT'', ws_state = CLOSING\<rparr>,
           \<lparr>ws_symbol = ''AAPL'', ws_url = ''wss://h/api/ws/market/AAPL'',
             ws_state = CONNECTING\<rparr>] \<and>
   map_option selectedSymbol (run never_throws ''http://h''
      [Mount, WsOpen 0, Elapse 1000, SelectSymbol ''MSFT'', WsOpen 1, Elapse 100, WsClose 0,
       Elapse 3000, TimerFires 1] initial) = Some ''MSFT''"
  by (simp add: eval_defs del: fields)

section \<open>File uploads\<close>

lemma endsWith_iff: "endsWith s suffix \<longleftrightarrow> (\<exists>p. s = p @ suffix)"
proof
  assume "endsWith s suffix"
  then have "s = take (length s - length suffix) s @ suffix"
    by (metis append_take_drop_id endsWith_def)
  then show "\<exists>p. s = p @ suffix" ..
next
  assume "\<exists>p. s = p @ suffix"
  then show "endsWith s suffix" by (auto simp: endsWith_def)
qed

lemma posted_files_append:
  "posted_files url (es @ es') = posted_files url es @ posted_files url es'"
  by (induction url es rule: posted_files.induct) simp_all

lemma s_step_files_ok:
  assumes "files_ok url st"
  shows "files_ok url (s_step trim b ev st)"
proof (cases ev)
  case (FileInput picked)
  with assms show ?thesis
    by (auto simp: files_ok_def handleFileChange_def s_emit_def posted_files_append accepted_def
        split: option.splits)
next
  case ClickFileSummary
  with assms show ?thesis
    by (auto simp: files_ok_def handleFileSummary_def s_emit_def posted_files_append
        split: option.splits)
next
  case (FileSummarySettled r)
  with assms show ?thesis
    by (auto simp: files_ok_def handleFileSummary_settled_def fetchMeetings_def s_emit_def
        posted_files_append split: option.splits outcome.splits)
next
  case (TextSummarySettled r)
  with assms show ?thesis
    by (auto simp: files_ok_def handleTextSummary_settled_def fetchMeetings_def s_emit_def
        posted_files_append split: option.splits outcome.splits)
next
  case ClickTextSummary
  with assms show ?thesis
    by (auto simp: files_ok_def handleTextSummary_def s_emit_def posted_files_append
        split: option.splits)
next
  case (MeetingsSettled r)
  with assms show ?thesis
    by (auto simp: files_ok_def fetchMeetings_settled_def s_emit_def posted_files_append
        split: option.splits outcome.splits)
qed (use assms in \<open>auto simp: files_ok_def fetchMeetings_def s_emit_def posted_files_append
        split: option.splits\<close>)

lemma s_run_files_ok:
  "files_ok url st \<Longrightarrow> files_ok url (s_run trim b evs st)"
  by (induction evs arbitrary: st) (simp_all add: s_step_files_ok)

text \<open>
  C7. A file whose name ends neither in \<^verbatim>\<open>.txt\<close> nor in \<^verbatim>\<open>.docx\<close> is turned down by
  \<^verbatim>\<open>handleFileChange\<close>, which shows the error toast and leaves the selected file as it
  was; and whatever the user does and whatever the requests answer, no form posted to any
  endpoint, the summarize-file endpoint among them, carries such a file.
\<close>

theorem rejected_file_never_submitted:
  assumes "\<not> endsWith (file_name f) ''.txt''" and "\<not> endsWith (file_name f) ''.docx''"
  shows "handleFileChange (Some f) st =
           st\<lparr>s_trace := s_trace st @ [ToastError ''Please select a .txt or .docx file'']\<rparr> \<and>
         f \<notin> set (posted_files url (s_trace (s_run trim b evs s_initial)))"
proof -
  have "files_ok url s_initial"
    by (simp add: files_ok_def s_initial_def)
  then have "files_ok url (s_run trim b evs s_initial)"
    by (rule s_run_files_ok)
  then have "\<forall>g\<in>set (posted_files url (s_trace (s_run trim b evs s_initial))). accepted g"
    by (simp add: files_ok_def list_all_iff)
  moreover from assms have "\<not> accepted f"
    by (simp add: accepted_def)
  ultimately have "f \<notin> set (posted_files url (s_trace (s_run trim b evs s_initial)))"
    by blast
  with assms show ?thesis
    by (simp add: handleFileChange_def s_emit_def)
qed

theorem rejected_file_never_submitted_witness:
  "posted_files ''http://h/api/summarize-file'' (s_trace (s_run id ''http://h''
      [TitleInput ''Standup'',
       FileInput (Some \<lparr>file_name = ''notes.txt'', file_bytes = ''a''\<rparr>),
       FileInput (Some \<lparr>file_name = ''notes.pdf'', file_bytes = ''b''\<rparr>),
       ClickFileSummary] s_initial)) =
     [\<lparr>file_name = ''notes.txt'', file_bytes = ''a''\<rparr>] \<and>
   \<lparr>file_name = ''notes.pdf'', file_bytes = ''b''\<rparr> \<notin> set (posted_files ''http://h/api/summarize-file''
     (s_trace (s_run id ''http://h''
      [TitleInput ''Standup'',
       FileInput (Some \<lparr>file_name = ''notes.txt'', file_bytes = ''a''\<rparr>),
       FileInput (Some \<lparr>file_name = ''notes.pdf'', file_bytes = ''b''\<rparr>),
       ClickFileSummary] s_initial)))"
  using rejected_file_never_submitted [of "\<lparr>file_name = ''notes.pdf'', file_bytes = ''b''\<rparr>"
      s_initial "''http://h/api/summarize-file''" id "''http://h''"
      "[TitleInput ''Standup'',
        FileInput (Some \<lparr>file_name = ''notes.txt'', file_bytes = ''a''\<rparr>),
        FileInput (Some \<lparr>file_name = ''notes.pdf'', file_bytes = ''b''\<rparr>),
        ClickFileSummary]"]
  by (simp add: endsWith_def handleFileChange_def handleFileSummary_def s_emit_def
        s_initial_def API_def)

end
